theory Spec2Isabelle
  imports Complex_Main "HOL-Library.List_Lexorder" "HOL-Library.Product_Lexorder"
begin

section \<open>Python strings\<close>

text \<open>
  A Python \<open>str\<close> is a sequence of Unicode code points; it is modelled as a list of
  naturals. The character tables below (case mapping, white space, digits, word
  characters) are those of Unicode for the blocks Basic Latin and Latin-1 Supplement
  (U+0000..U+00FF), which hold every name the scraper reads, together with the images of
  these blocks under the case mappings; the white-space table is complete. Code points
  outside the tables are treated as caseless symbols.
\<close>

type_synonym ustr = "nat list"

definition lit :: "string \<Rightarrow> ustr" where
  "lit s = map of_char s"

text \<open>\<open>str.isspace\<close> of one code point: the separators of \<open>str.split()\<close> and \<open>str.strip()\<close>.\<close>

definition es_espacio :: "nat \<Rightarrow> bool" where
  "es_espacio c \<longleftrightarrow>
     (9 \<le> c \<and> c \<le> 13) \<or> (28 \<le> c \<and> c \<le> 32) \<or> c = 133 \<or> c = 160 \<or> c = 5760 \<or>
     (8192 \<le> c \<and> c \<le> 8202) \<or> c = 8232 \<or> c = 8233 \<or> c = 8239 \<or> c = 8287 \<or> c = 12288"

text \<open>\<open>str.lower\<close> of one code point.\<close>

definition minus_cp :: "nat \<Rightarrow> nat" where
  "minus_cp c =
     (if 65 \<le> c \<and> c \<le> 90 then c + 32
      else if 192 \<le> c \<and> c \<le> 222 \<and> c \<noteq> 215 then c + 32
      else if c = 376 then 255
      else if c = 924 then 956
      else c)"

text \<open>\<open>str.upper\<close> of one code point; the sharp s becomes two letters.\<close>

definition mayus_cp :: "nat \<Rightarrow> nat list" where
  "mayus_cp c =
     (if 97 \<le> c \<and> c \<le> 122 then [c - 32]
      else if c = 181 then [924]
      else if c = 223 then [83, 83]
      else if 224 \<le> c \<and> c \<le> 254 \<and> c \<noteq> 247 then [c - 32]
      else if c = 255 then [376]
      else if c = 956 then [924]
      else [c])"

text \<open>The title case of one code point, as \<open>str.capitalize\<close> uses it for the first one.\<close>

definition titulo_cp :: "nat \<Rightarrow> nat list" where
  "titulo_cp c = (if c = 223 then [83, 115] else mayus_cp c)"

definition upper :: "ustr \<Rightarrow> ustr" where
  "upper s = concat (map mayus_cp s)"

definition lower :: "ustr \<Rightarrow> ustr" where
  "lower s = map minus_cp s"

fun capitalize :: "ustr \<Rightarrow> ustr" where
  "capitalize [] = []"
| "capitalize (c # cs) = titulo_cp c @ lower cs"

definition strip :: "ustr \<Rightarrow> ustr" where
  "strip s = rev (dropWhile es_espacio (rev (dropWhile es_espacio s)))"

text \<open>
  \<open>str.split()\<close> without arguments: the maximal runs of code points that are not white
  space. \<open>split_aux acc s\<close> carries the token being read.
\<close>

fun split_aux :: "ustr \<Rightarrow> ustr \<Rightarrow> ustr list" where
  "split_aux acc [] = (if acc = [] then [] else [acc])"
| "split_aux acc (c # cs) =
     (if es_espacio c then (if acc = [] then split_aux [] cs else acc # split_aux [] cs)
      else split_aux (acc @ [c]) cs)"

definition split :: "ustr \<Rightarrow> ustr list" where
  "split s = split_aux [] s"

text \<open>\<open>sep.join(ws)\<close>.\<close>

fun join :: "ustr \<Rightarrow> ustr list \<Rightarrow> ustr" where
  "join sep [] = []"
| "join sep [w] = w"
| "join sep (w # ws) = w @ sep @ join sep ws"

text \<open>\<open>a in b\<close> on strings: \<open>a\<close> occurs in \<open>b\<close> as a contiguous run.\<close>

fun empieza_con :: "ustr \<Rightarrow> ustr \<Rightarrow> bool" where
  "empieza_con [] s = True"
| "empieza_con (p # ps) [] = False"
| "empieza_con (p # ps) (c # cs) = (p = c \<and> empieza_con ps cs)"

fun contiene :: "ustr \<Rightarrow> ustr \<Rightarrow> bool" where
  "contiene [] a = (a = [])"
| "contiene (c # cs) a = (empieza_con a (c # cs) \<or> contiene cs a)"

text \<open>\<open>s.replace(a, b)\<close> for a single code point \<open>a\<close>.\<close>

definition replace_cp :: "nat \<Rightarrow> ustr \<Rightarrow> ustr \<Rightarrow> ustr" where
  "replace_cp a b s = concat (map (\<lambda>c. if c = a then b else [c]) s)"

section \<open>Name Normalizer: candidates\<close>

text \<open>
  \<open>MAPEO_CANDIDATOS\<close> is a dictionary read from JSON; its iteration order is the order
  of the file, so it is an association list.
\<close>

type_synonym mapeo = "(ustr \<times> ustr) list"

text \<open>The first loop of \<open>simplificar_nombre_candidato\<close>: \<open>nombre_upper == nombre_largo\<close>.\<close>

fun buscar_exacta :: "mapeo \<Rightarrow> ustr \<Rightarrow> ustr option" where
  "buscar_exacta [] nombre_upper = None"
| "buscar_exacta ((nombre_largo, nombre_corto) # m) nombre_upper =
     (if nombre_upper = nombre_largo then Some nombre_corto else buscar_exacta m nombre_upper)"

text \<open>The second loop: \<open>nombre_largo in nombre_upper\<close>.\<close>

fun buscar_parcial :: "mapeo \<Rightarrow> ustr \<Rightarrow> ustr option" where
  "buscar_parcial [] nombre_upper = None"
| "buscar_parcial ((nombre_largo, nombre_corto) # m) nombre_upper =
     (if contiene nombre_upper nombre_largo then Some nombre_corto
      else buscar_parcial m nombre_upper)"

text \<open>\<open>re.sub(r'[^a-zA-Z0-9_]', '_', s)\<close>.\<close>

definition es_slug_cp :: "nat \<Rightarrow> bool" where
  "es_slug_cp c \<longleftrightarrow> (97 \<le> c \<and> c \<le> 122) \<or> (65 \<le> c \<and> c \<le> 90) \<or> (48 \<le> c \<and> c \<le> 57) \<or> c = 95"

definition slug :: "ustr \<Rightarrow> ustr" where
  "slug s = map (\<lambda>c. if es_slug_cp c then c else 95) s"

definition candidato_desconocido :: ustr where
  "candidato_desconocido = lit ''candidato_desconocido''"

definition apellido_slug :: "ustr \<Rightarrow> ustr" where
  "apellido_slug nombre_completo =
     (let palabras = split nombre_completo in
      if palabras \<noteq> [] then slug (lower (last palabras)) else candidato_desconocido)"

definition simplificar_nombre_candidato :: "mapeo \<Rightarrow> ustr \<Rightarrow> ustr" where
  "simplificar_nombre_candidato MAPEO_CANDIDATOS nombre_completo =
     (let nombre_upper = strip (upper nombre_completo) in
      case buscar_exacta MAPEO_CANDIDATOS nombre_upper of
        Some nombre_corto \<Rightarrow> nombre_corto
      | None \<Rightarrow>
          (case buscar_parcial MAPEO_CANDIDATOS nombre_upper of
             Some nombre_corto \<Rightarrow> nombre_corto
           | None \<Rightarrow> apellido_slug nombre_completo))"

section \<open>Name Normalizer: leaves\<close>

definition excepciones :: "ustr list" where
  "excepciones = map lit [''II'', ''III'', ''IV'', ''VI'', ''VII'', ''X'', ''XIV'', ''XV'',
     ''XVI'', ''XVIII'', ''XIX'']"

text \<open>The body of the loop over \<open>palabras\<close>; U+00F1 is the small n with tilde, U+00D1 the capital.\<close>

definition capitalizar_palabra :: "ustr \<Rightarrow> ustr" where
  "capitalizar_palabra palabra =
     (if upper palabra \<in> set excepciones then upper palabra
      else if empieza_con [241] palabra then [209] @ capitalize (drop 1 palabra)
      else capitalize palabra)"

text \<open>
  \<open>\w\<close> of a Unicode pattern: \<open>str.isalnum\<close> or the underscore.
\<close>

definition es_palabra_cp :: "nat \<Rightarrow> bool" where
  "es_palabra_cp c \<longleftrightarrow>
     (48 \<le> c \<and> c \<le> 57) \<or> (65 \<le> c \<and> c \<le> 90) \<or> c = 95 \<or> (97 \<le> c \<and> c \<le> 122) \<or>
     c = 170 \<or> c = 178 \<or> c = 179 \<or> c = 181 \<or> c = 185 \<or> c = 186 \<or>
     (188 \<le> c \<and> c \<le> 190) \<or> (192 \<le> c \<and> c \<le> 214) \<or> (216 \<le> c \<and> c \<le> 246) \<or>
     (248 \<le> c \<and> c \<le> 255) \<or> c = 376 \<or> c = 924 \<or> c = 956"

text \<open>
  \<open>re.sub(r'\b' + incorrecto + r'\b', correcto, s)\<close> for a pattern made of word
  characters, as the nine keys of \<open>correcciones\<close> are: scanning from the left, the pattern
  matches where the text starts with it, the code point before is not a word character
  (or there is none) and neither is the one after. \<open>previo\<close> tells whether the code
  point before is a word character, \<open>saltar\<close> counts the code points of a match still to
  be consumed.
\<close>

definition coincide_palabra :: "ustr \<Rightarrow> bool \<Rightarrow> ustr \<Rightarrow> bool" where
  "coincide_palabra incorrecto previo s \<longleftrightarrow>
     \<not> previo \<and> empieza_con incorrecto s \<and>
     (case drop (length incorrecto) s of [] \<Rightarrow> True | d # _ \<Rightarrow> \<not> es_palabra_cp d)"

fun re_sub_aux :: "ustr \<Rightarrow> ustr \<Rightarrow> bool \<Rightarrow> nat \<Rightarrow> ustr \<Rightarrow> ustr" where
  "re_sub_aux incorrecto correcto previo saltar [] = []"
| "re_sub_aux incorrecto correcto previo saltar (c # cs) =
     (if 0 < saltar then re_sub_aux incorrecto correcto (es_palabra_cp c) (saltar - 1) cs
      else if coincide_palabra incorrecto previo (c # cs)
        then correcto @ re_sub_aux incorrecto correcto (es_palabra_cp c) (length incorrecto - 1) cs
      else c # re_sub_aux incorrecto correcto (es_palabra_cp c) 0 cs)"

definition re_sub_palabra :: "ustr \<Rightarrow> ustr \<Rightarrow> ustr \<Rightarrow> ustr" where
  "re_sub_palabra incorrecto correcto s = re_sub_aux incorrecto correcto False 0 s"

definition correcciones :: "(ustr \<times> ustr) list" where
  "correcciones = map (\<lambda>(a, b). (lit a, lit b))
     [(''De'', ''de''), (''Del'', ''del''), (''La'', ''la''), (''Las'', ''las''),
      (''Los'', ''los''), (''Y'', ''y''), (''E'', ''e''), (''En'', ''en''), (''Con'', ''con'')]"

definition aplicar_correcciones :: "ustr \<Rightarrow> ustr" where
  "aplicar_correcciones s =
     fold (\<lambda>(incorrecto, correcto) t. re_sub_palabra incorrecto correcto t) correcciones s"

text \<open>The table of proper names; every entry maps a name to itself.\<close>

definition nombres_especificos :: "(ustr \<times> ustr) list" where
  "nombres_especificos = map (\<lambda>n. (n, n))
     [lit ''Arica'', lit ''Iquique'', lit ''Antofagasta'',
      lit ''Copiap'' @ [243], lit ''La Serena'', lit ''Coquimbo'',
      lit ''Valpara'' @ [237] @ lit ''so'', lit ''Vi'' @ [241] @ lit ''a del Mar'', lit ''Santiago'',
      lit ''Rancagua'', lit ''Talca'', lit ''Chill'' @ [225] @ lit ''n'',
      lit ''Concepci'' @ [243] @ lit ''n'', lit ''Temuco'', lit ''Valdivia'',
      lit ''Puerto Montt'', lit ''Coyhaique'', lit ''Punta Arenas'',
      [209] @ lit ''u'' @ [241] @ lit ''oa'', lit ''Providencia'', lit ''Las Condes'',
      lit ''Maip'' @ [250], lit ''San Bernardo'', lit ''Puente Alto'']"

text \<open>The value of \<open>nombre_normalizado\<close> when the table of proper names is consulted.\<close>

definition nombre_normalizado :: "ustr \<Rightarrow> ustr" where
  "nombre_normalizado nombre_comuna =
     (let nombre_minusculas = lower nombre_comuna;
          palabras = split nombre_minusculas;
          palabras_capitalizadas = map capitalizar_palabra palabras
      in aplicar_correcciones (join (lit '' '') palabras_capitalizadas))"

definition normalizar_nombre_comuna :: "ustr \<Rightarrow> ustr" where
  "normalizar_nombre_comuna nombre_comuna =
     (case map_of nombres_especificos (nombre_normalizado nombre_comuna) of
        Some especifico \<Rightarrow> especifico
      | None \<Rightarrow> nombre_normalizado nombre_comuna)"

section \<open>Name Normalizer: regions\<close>

definition mapeo_especial :: "(ustr \<times> ustr) list" where
  "mapeo_especial =
     [(lit ''METROPOLITANA DE SANTIAGO'', lit ''Metropolitana''),
      (lit ''DEL LIBERTADOR GENERAL BERNARDO O'' @ [39] @ lit ''HIGGINS'', lit ''Libertador''),
      (lit ''DEL MAULE'', lit ''Maule''),
      (lit ''DEL BIOBIO'', lit ''Biob'' @ [237] @ lit ''o''),
      (lit ''DE ARICA Y PARINACOTA'', lit ''Arica y Parinacota''),
      (lit ''DE TARAPACA'', lit ''Tarapac'' @ [225]),
      (lit ''DE ANTOFAGASTA'', lit ''Antofagasta''),
      (lit ''DE ATACAMA'', lit ''Atacama''),
      (lit ''DE COQUIMBO'', lit ''Coquimbo''),
      (lit ''DE VALPARAISO'', lit ''Valpara'' @ [237] @ lit ''so''),
      (lit ''DE '' @ [209] @ lit ''UBLE'', [209] @ lit ''uble''),
      (lit ''DE LA ARAUCANIA'', lit ''La Araucan'' @ [237] @ lit ''a''),
      (lit ''DE LOS RIOS'', lit ''Los R'' @ [237] @ lit ''os''),
      (lit ''DE LOS LAGOS'', lit ''Los Lagos''),
      (lit ''DE AYSEN DEL GENERAL CARLOS IBA'' @ [209] @ lit ''EZ DEL CAMPO'', lit ''Ays'' @ [233] @ lit ''n''),
      (lit ''DE MAGALLANES Y DE LA ANTARTICA CHILENA'', lit ''Magallanes'')]"

text \<open>
  \<open>re.sub(r'^(DE|DEL|DE LA|DE LOS)\s+', '', s, flags=re.IGNORECASE)\<close>: the alternatives
  are tried in their order at the start of the text; the first one that is followed by
  white space is removed with all the white space after it.
\<close>

fun empieza_con_ic :: "ustr \<Rightarrow> ustr \<Rightarrow> bool" where
  "empieza_con_ic [] s = True"
| "empieza_con_ic (p # ps) [] = False"
| "empieza_con_ic (p # ps) (c # cs) = (minus_cp p = minus_cp c \<and> empieza_con_ic ps cs)"

fun quitar_prefijo :: "ustr list \<Rightarrow> ustr \<Rightarrow> ustr" where
  "quitar_prefijo [] s = s"
| "quitar_prefijo (alt # alts) s =
     (if empieza_con_ic alt s \<and>
         (case drop (length alt) s of [] \<Rightarrow> False | c # _ \<Rightarrow> es_espacio c)
      then dropWhile es_espacio (drop (length alt) s)
      else quitar_prefijo alts s)"

definition conectores_region :: "ustr list" where
  "conectores_region = map lit [''Y'', ''O'', ''DE'', ''DEL'']"

definition normalizar_nombre_region :: "ustr \<Rightarrow> ustr" where
  "normalizar_nombre_region nombre_region =
     (case map_of mapeo_especial (upper nombre_region) of
        Some corto \<Rightarrow> corto
      | None \<Rightarrow>
          (let nombre_normalizado =
                 quitar_prefijo (map lit [''DE'', ''DEL'', ''DE LA'', ''DE LOS'']) nombre_region;
               palabras = split nombre_normalizado
           in case palabras of
                [] \<Rightarrow> join (lit '' '') []
              | primera # resto \<Rightarrow>
                  join (lit '' '')
                    (capitalize primera #
                     map (\<lambda>p. if upper p \<in> set conectores_region then lower p else capitalize p)
                       resto)))"

section \<open>Leaf Extractor\<close>

text \<open>
  One entry of \<open>datos_candidatos\<close> or \<open>datos_totales\<close> is the dictionary
  \<open>{'votos': ..., 'porcentaje': ...}\<close>. The percentage is a Python float; the model keeps
  the decimal number that the text denotes, as a rational.
\<close>

record resultado =
  votos :: int
  porcentaje :: rat

text \<open>
  A Python dictionary keeps its keys in insertion order: \<open>d[k] = v\<close> replaces the value
  of a key that is present, in place, and appends a new key at the end.
\<close>

type_synonym ('k, 'v) dict = "('k \<times> 'v) list"

fun dict_set :: "('k, 'v) dict \<Rightarrow> 'k \<Rightarrow> 'v \<Rightarrow> ('k, 'v) dict" where
  "dict_set [] k v = [(k, v)]"
| "dict_set ((k', v') # d) k v = (if k' = k then (k, v) # d else (k', v') # dict_set d k v)"

type_synonym entidades = "(ustr, resultado) dict"

text \<open>\<open>str.isdigit\<close>: the decimal digits and the superscript digits of Latin-1.\<close>

definition es_decimal_cp :: "nat \<Rightarrow> bool" where
  "es_decimal_cp c \<longleftrightarrow> 48 \<le> c \<and> c \<le> 57"

definition es_digito_cp :: "nat \<Rightarrow> bool" where
  "es_digito_cp c \<longleftrightarrow> es_decimal_cp c \<or> c = 178 \<or> c = 179 \<or> c = 185"

definition isdigit :: "ustr \<Rightarrow> bool" where
  "isdigit s \<longleftrightarrow> s \<noteq> [] \<and> list_all es_digito_cp s"

definition valor_decimal :: "ustr \<Rightarrow> nat" where
  "valor_decimal s = foldl (\<lambda>a c. 10 * a + (c - 48)) 0 s"

text \<open>
  \<open>int(s)\<close> on a text that passed \<open>isdigit\<close>: a superscript digit is a digit and not a
  decimal, and \<open>int\<close> raises ValueError on it (\<open>None\<close>).
\<close>

definition py_int :: "ustr \<Rightarrow> int option" where
  "py_int s = (if s \<noteq> [] \<and> list_all es_decimal_cp s then Some (int (valor_decimal s)) else None)"

text \<open>
  \<open>float(s)\<close> on the decimal notation: white space around, a sign, digits, a point,
  digits, with one digit at least. \<open>None\<close> is ValueError. The other notations that
  \<open>float\<close> reads (an exponent, underscores between digits, \<open>inf\<close> and \<open>nan\<close>) are
  outside the model, which answers \<open>None\<close> on them.
\<close>

definition py_float :: "ustr \<Rightarrow> rat option" where
  "py_float t =
     (let s = strip t;
          signo = (case s of [] \<Rightarrow> 1 | c # _ \<Rightarrow> if c = 45 then - 1 else 1);
          cuerpo = (case s of [] \<Rightarrow> [] | c # r \<Rightarrow> if c = 45 \<or> c = 43 then r else s);
          entera = takeWhile es_decimal_cp cuerpo;
          resto = dropWhile es_decimal_cp cuerpo
      in case resto of
           [] \<Rightarrow> if entera = [] then None else Some (signo * of_nat (valor_decimal entera))
         | p # fraccion \<Rightarrow>
             if p = 46 \<and> list_all es_decimal_cp fraccion \<and> (entera \<noteq> [] \<or> fraccion \<noteq> [])
             then Some (signo * (of_nat (valor_decimal entera) +
                                 of_nat (valor_decimal fraccion) / 10 ^ length fraccion))
             else None)"

definition marcadores_encabezado :: "ustr list" where
  "marcadores_encabezado =
     [lit ''TOTAL'', lit ''VOTACI'' @ [211] @ lit ''N'', lit ''CANDIDATO'', lit ''PARTIDO'']"

text \<open>
  \<open>_procesar_fila\<close>: \<open>celdas\<close> holds the texts of the cells of one row. A row with fewer
  than three cells raises IndexError and a count that \<open>int\<close> refuses raises ValueError;
  both are caught and the row changes nothing.
\<close>

definition procesar_fila ::
  "mapeo \<Rightarrow> ustr list \<Rightarrow> entidades \<times> entidades \<Rightarrow> entidades \<times> entidades" where
  "procesar_fila MAPEO_CANDIDATOS celdas datos =
     (if length celdas < 3 then datos
      else
        let datos_candidatos = fst datos;
            datos_totales = snd datos;
            nombre = strip (celdas ! 0);
            votos_texto = replace_cp 46 [] (strip (celdas ! 1));
            porcentaje_texto = replace_cp 44 [46] (replace_cp 37 [] (strip (celdas ! 2)))
        in case (if isdigit votos_texto then py_int votos_texto else Some 0) of
             None \<Rightarrow> datos
           | Some v \<Rightarrow>
               let p = (if porcentaje_texto \<noteq> []
                        then (case py_float porcentaje_texto of Some f \<Rightarrow> f | None \<Rightarrow> 0)
                        else 0);
                   r = \<lparr>votos = v, porcentaje = p\<rparr>;
                   nombre_upper = upper nombre
               in if contiene nombre_upper (lit ''BLANCO'')
                    then (datos_candidatos, dict_set datos_totales (lit ''blanco'') r)
                  else if contiene nombre_upper (lit ''NULO'')
                    then (datos_candidatos, dict_set datos_totales (lit ''nulo'') r)
                  else if contiene nombre_upper (lit ''EMITIDO'') \<or> contiene nombre_upper (lit ''TOTAL'')
                    then (datos_candidatos, dict_set datos_totales (lit ''emitidos'') r)
                  else if (nombre \<noteq> []) \<and> (\<not> list_ex (contiene nombre_upper) marcadores_encabezado)
                    then (dict_set datos_candidatos
                            (simplificar_nombre_candidato MAPEO_CANDIDATOS nombre) r,
                          datos_totales)
                  else datos)"

text \<open>
  What the browser shows once a leaf is selected. A table has its visibility, its
  visible text and its rows, each row the texts of its \<open>td\<close> cells.
\<close>

record tabla =
  is_displayed :: bool
  text_tabla :: ustr
  filas_tabla :: "ustr list list"

datatype pagina =
    SeleccionFallida
  | TimeoutTabla
  | ErrorLectura
  | Tablas "tabla list"

definition marcadores_tabla :: "ustr list" where
  "marcadores_tabla = map lit [''CANDIDATO'', ''VOTOS'', ''PORCENTAJE'', ''PARTIDO'', ''BLANCO'',
     ''NULO'', ''EMITIDO'']"

text \<open>\<open>_encontrar_tabla_resultados\<close>, once the wait for a table has ended without timeout.\<close>

definition encontrar_tabla_resultados :: "tabla list \<Rightarrow> tabla option" where
  "encontrar_tabla_resultados tablas =
     find (\<lambda>t. is_displayed t \<and> list_ex (contiene (upper (text_tabla t))) marcadores_tabla) tablas"

text \<open>
  \<open>_procesar_tabla_resultados\<close> returns the pair \<open>(None, None)\<close> when the table is not
  found or reading it raises: \<open>None\<close> here.
\<close>

definition procesar_tabla_resultados :: "mapeo \<Rightarrow> pagina \<Rightarrow> (entidades \<times> entidades) option" where
  "procesar_tabla_resultados MAPEO_CANDIDATOS pag =
     (case pag of
        Tablas tablas \<Rightarrow>
          (case encontrar_tabla_resultados tablas of
             None \<Rightarrow> None
           | Some t \<Rightarrow>
               Some (fold (\<lambda>celdas datos.
                             if 3 \<le> length celdas then procesar_fila MAPEO_CANDIDATOS celdas datos
                             else datos)
                       (filas_tabla t) ([], [])))
      | _ \<Rightarrow> None)"

text \<open>\<open>_extraer_datos_comuna\<close>: selecting the leaf may raise, which gives \<open>(None, None)\<close> too.\<close>

definition extraer_datos_comuna :: "mapeo \<Rightarrow> pagina \<Rightarrow> (entidades \<times> entidades) option" where
  "extraer_datos_comuna MAPEO_CANDIDATOS pag =
     (case pag of
        SeleccionFallida \<Rightarrow> None
      | _ \<Rightarrow> procesar_tabla_resultados MAPEO_CANDIDATOS pag)"

section \<open>Accumulator and Matrix Assembler\<close>

text \<open>
  One value of \<open>datos_completos\<close> is \<open>{'candidatos': ..., 'totales': ...}\<close>; its key is
  the pair \<open>(comuna_normalizada, region_normalizada)\<close>.
\<close>

record hoja =
  candidatos :: entidades
  totales :: entidades

type_synonym clave = "ustr \<times> ustr"

type_synonym almacen = "(clave, hoja) dict"

datatype celda = Texto ustr | Entero int | Decimal rat

record dataframe =
  columnas :: "ustr list"
  filas :: "celda list list"

text \<open>\<open>sorted(list(s))\<close> of a set of strings that was filled from the lists \<open>xss\<close>.\<close>

definition sorted_union :: "ustr list list \<Rightarrow> ustr list" where
  "sorted_union xss = sort (remdups (concat xss))"

definition todos_candidatos :: "almacen \<Rightarrow> ustr list" where
  "todos_candidatos almacen = sorted_union (map (\<lambda>(k, datos). map fst (candidatos datos)) almacen)"

definition todos_totales :: "almacen \<Rightarrow> ustr list" where
  "todos_totales almacen = sorted_union (map (\<lambda>(k, datos). map fst (totales datos)) almacen)"

definition columnas_de :: "ustr list \<Rightarrow> ustr list" where
  "columnas_de nombres = concat (map (\<lambda>n. [n @ lit ''_votos'', n @ lit ''_pct'']) nombres)"

text \<open>The two cells of one entity in one row: its values, or \<open>[0, 0.0]\<close> when it is absent.\<close>

definition celdas_de :: "entidades \<Rightarrow> ustr \<Rightarrow> celda list" where
  "celdas_de registro nombre =
     (case map_of registro nombre of
        Some r \<Rightarrow> [Entero (votos r), Decimal (porcentaje r)]
      | None \<Rightarrow> [Entero 0, Decimal 0])"

definition fila_de :: "ustr list \<Rightarrow> ustr list \<Rightarrow> clave \<times> hoja \<Rightarrow> celda list" where
  "fila_de cands tots entrada =
     (case entrada of ((comuna, region), datos) \<Rightarrow>
        [Texto comuna, Texto region] @
        concat (map (celdas_de (candidatos datos)) cands) @
        concat (map (celdas_de (totales datos)) tots))"

fun texto :: "celda \<Rightarrow> ustr" where
  "texto (Texto s) = s"
| "texto (Entero i) = []"
| "texto (Decimal q) = []"

text \<open>
  \<open>df.sort_values(['region', 'comuna'])\<close>: the rows in the order of the pair (region,
  comuna), strings compared code point by code point. The keys of the store are distinct,
  so no two rows tie.
\<close>

definition sort_values :: "celda list list \<Rightarrow> celda list list" where
  "sort_values fs = sort_key (\<lambda>f. (texto (f ! 1), texto (f ! 0))) fs"

text \<open>The (leaf, region) identity of a row: its first two cells.\<close>

definition identidad :: "celda list \<Rightarrow> clave" where
  "identidad f = (texto (f ! 0), texto (f ! 1))"

definition crear_dataframe_final :: "almacen \<Rightarrow> dataframe" where
  "crear_dataframe_final almacen =
     (let cands = todos_candidatos almacen;
          tots = todos_totales almacen
      in \<lparr>columnas = [lit ''comuna'', lit ''region''] @ columnas_de cands @ columnas_de tots,
          filas = sort_values (map (fila_de cands tots) almacen)\<rparr>)"

section \<open>Hierarchy Walker\<close>

text \<open>
  The state of the scraper object. \<open>bitacora\<close> holds three of the lines it logs, in
  order: \<open>Procesando: ...\<close> when a leaf attempt starts, the line with the running total
  after a stored leaf, and the warning after a leaf without data.
\<close>

datatype evento = Procesando ustr ustr | Extraida ustr | SinDatos ustr

record estado =
  datos_completos :: almacen
  comunas_procesadas :: nat
  comunas_con_error :: nat
  bitacora :: "evento list"

text \<open>The lines of \<open>bitacora\<close> that start a leaf attempt, and those that report a stored leaf.\<close>

fun es_intento :: "evento \<Rightarrow> bool" where
  "es_intento (Procesando comuna region) = True"
| "es_intento (Extraida comuna) = False"
| "es_intento (SinDatos comuna) = False"

fun es_exito :: "evento \<Rightarrow> bool" where
  "es_exito (Procesando comuna region) = False"
| "es_exito (Extraida comuna) = True"
| "es_exito (SinDatos comuna) = False"

definition intentos :: "estado \<Rightarrow> nat" where
  "intentos s = length (filter es_intento (bitacora s))"

definition estado_inicial :: estado where
  "estado_inicial = \<lparr>datos_completos = [], comunas_procesadas = 0, comunas_con_error = 0,
     bitacora = []\<rparr>"

text \<open>
  \<open>self.max_comunas and self.comunas_procesadas >= self.max_comunas\<close>: \<open>None\<close> and \<open>0\<close>
  are false in Python, every other integer is true.
\<close>

definition limite_alcanzado :: "int option \<Rightarrow> estado \<Rightarrow> bool" where
  "limite_alcanzado max_comunas s =
     (case max_comunas of
        None \<Rightarrow> False
      | Some n \<Rightarrow> n \<noteq> 0 \<and> n \<le> int (comunas_procesadas s))"

text \<open>\<open>xs[:n]\<close>: a negative \<open>n\<close> counts from the end.\<close>

definition py_slice :: "int \<Rightarrow> 'a list \<Rightarrow> 'a list" where
  "py_slice n xs = (if 0 \<le> n then take (nat n) xs else take (length xs - nat (- n)) xs)"

text \<open>
  \<open>_procesar_comuna_individual\<close>. The partial save after every tenth stored leaf writes
  a file and catches its own errors; it does not touch the state.
\<close>

definition procesar_comuna_individual ::
  "mapeo \<Rightarrow> ustr \<times> pagina \<Rightarrow> ustr \<Rightarrow> estado \<Rightarrow> estado" where
  "procesar_comuna_individual MAPEO_CANDIDATOS comuna region_normalizada s =
     (let comuna_nombre = fst comuna;
          pag = snd comuna;
          comuna_normalizada = normalizar_nombre_comuna comuna_nombre;
          s1 = s\<lparr>bitacora := bitacora s @ [Procesando comuna_normalizada region_normalizada]\<rparr>
      in case extraer_datos_comuna MAPEO_CANDIDATOS pag of
           None \<Rightarrow>
             s1\<lparr>comunas_con_error := comunas_con_error s1 + 1,
                bitacora := bitacora s1 @ [SinDatos comuna_normalizada]\<rparr>
         | Some (datos_candidatos, datos_totales) \<Rightarrow>
             if datos_candidatos \<noteq> [] then
               s1\<lparr>datos_completos :=
                    dict_set (datos_completos s1) (comuna_normalizada, region_normalizada)
                      \<lparr>candidatos = datos_candidatos, totales = datos_totales\<rparr>,
                  comunas_procesadas := comunas_procesadas s1 + 1,
                  bitacora := bitacora s1 @ [Extraida comuna_normalizada]\<rparr>
             else
               s1\<lparr>comunas_con_error := comunas_con_error s1 + 1,
                  bitacora := bitacora s1 @ [SinDatos comuna_normalizada]\<rparr>)"

text \<open>The loop \<open>for comuna_nombre in comunas\<close> of \<open>_procesar_region\<close>, with its \<open>break\<close>.\<close>

fun procesar_comunas ::
  "int option \<Rightarrow> mapeo \<Rightarrow> ustr \<Rightarrow> (ustr \<times> pagina) list \<Rightarrow> estado \<Rightarrow> estado" where
  "procesar_comunas max_comunas MAPEO_CANDIDATOS region_normalizada [] s = s"
| "procesar_comunas max_comunas MAPEO_CANDIDATOS region_normalizada (comuna # comunas) s =
     (if limite_alcanzado max_comunas s then s
      else procesar_comunas max_comunas MAPEO_CANDIDATOS region_normalizada comunas
             (procesar_comuna_individual MAPEO_CANDIDATOS comuna region_normalizada s))"

text \<open>
  The options of a \<open>select\<close> that \<open>_obtener_regiones\<close> and \<open>_obtener_comunas_region\<close>
  keep: \<open>opcion.text and opcion.text != "Seleccionar"\<close>.
\<close>

definition es_opcion :: "ustr \<Rightarrow> bool" where
  "es_opcion t \<longleftrightarrow> t \<noteq> [] \<and> t \<noteq> lit ''Seleccionar''"

text \<open>
  What the site answers during one run. A region is the text of its option and the
  options of the leaf selector once the region is selected, each with the page that
  selecting it brings; \<open>None\<close> is an exception while the selector is read, which
  \<open>_obtener_comunas_region\<close> and \<open>_obtener_regiones\<close> turn into the empty list.
\<close>

type_synonym region_ui = "ustr \<times> (ustr \<times> pagina) list option"

record sitio =
  navegador_disponible :: bool
  pagina_cargada :: bool
  filtro_activado :: bool
  opciones_region :: "region_ui list option"

definition obtener_comunas_region :: "region_ui \<Rightarrow> (ustr \<times> pagina) list" where
  "obtener_comunas_region region =
     (case snd region of
        None \<Rightarrow> []
      | Some opciones \<Rightarrow> filter (\<lambda>opcion. es_opcion (fst opcion)) opciones)"

definition obtener_regiones :: "sitio \<Rightarrow> region_ui list" where
  "obtener_regiones web =
     (case opciones_region web of
        None \<Rightarrow> []
      | Some opciones \<Rightarrow> filter (\<lambda>opcion. es_opcion (fst opcion)) opciones)"

definition procesar_region :: "int option \<Rightarrow> mapeo \<Rightarrow> region_ui \<Rightarrow> estado \<Rightarrow> estado" where
  "procesar_region max_comunas MAPEO_CANDIDATOS region s =
     (let region_normalizada = normalizar_nombre_region (fst region);
          comunas = obtener_comunas_region region
      in if comunas = [] then s
         else
           let comunas_limitadas =
                 (case max_comunas of
                    None \<Rightarrow> comunas
                  | Some n \<Rightarrow>
                      if n \<noteq> 0 \<and> n < int (length comunas) then py_slice n comunas else comunas)
           in procesar_comunas max_comunas MAPEO_CANDIDATOS region_normalizada comunas_limitadas s)"

text \<open>The loop \<open>for region in regiones\<close> of \<open>ejecutar_extraccion\<close>, with its \<open>break\<close>.\<close>

fun procesar_regiones :: "int option \<Rightarrow> mapeo \<Rightarrow> region_ui list \<Rightarrow> estado \<Rightarrow> estado" where
  "procesar_regiones max_comunas MAPEO_CANDIDATOS [] s = s"
| "procesar_regiones max_comunas MAPEO_CANDIDATOS (region # regiones) s =
     (if limite_alcanzado max_comunas s then s
      else procesar_regiones max_comunas MAPEO_CANDIDATOS regiones
             (procesar_region max_comunas MAPEO_CANDIDATOS region s))"

text \<open>
  The exceptions that leave \<open>ejecutar_extraccion\<close>, which logs them and raises them
  again. \<open>inicializar_navegador\<close> raises when none of Chrome, Edge and Firefox starts;
  \<open>_navegar_a_servel\<close> has no handler, so an exception of \<open>driver.get\<close> leaves it;
  \<open>_activar_filtro_division_electoral\<close> logs the exception of the click and raises it
  again; \<open>ejecutar_extraccion\<close> itself raises when the list of regions is empty.
\<close>

datatype fallo = SinNavegador | FalloNavegacion | FalloFiltro | SinRegiones

definition inicializar_navegador :: "sitio \<Rightarrow> fallo + unit" where
  "inicializar_navegador web = (if navegador_disponible web then Inr () else Inl SinNavegador)"

definition navegar_a_servel :: "sitio \<Rightarrow> fallo + unit" where
  "navegar_a_servel web = (if pagina_cargada web then Inr () else Inl FalloNavegacion)"

definition activar_filtro_division_electoral :: "sitio \<Rightarrow> fallo + unit" where
  "activar_filtro_division_electoral web =
     (if filtro_activado web then Inr () else Inl FalloFiltro)"

text \<open>
  \<open>ejecutar_extraccion\<close> returns the matrix; the state of the scraper after the run is
  returned with it. Saving the final files catches its own errors.
\<close>

definition ejecutar_extraccion ::
  "int option \<Rightarrow> mapeo \<Rightarrow> sitio \<Rightarrow> estado \<Rightarrow> fallo + dataframe \<times> estado" where
  "ejecutar_extraccion max_comunas MAPEO_CANDIDATOS web s =
     (case inicializar_navegador web of
        Inl e \<Rightarrow> Inl e
      | Inr u \<Rightarrow>
          (case navegar_a_servel web of
             Inl e \<Rightarrow> Inl e
           | Inr u \<Rightarrow>
               (case activar_filtro_division_electoral web of
                  Inl e \<Rightarrow> Inl e
                | Inr u \<Rightarrow>
                    (let regiones = obtener_regiones web
                     in if regiones = [] then Inl SinRegiones
                        else
                          let s' = procesar_regiones max_comunas MAPEO_CANDIDATOS regiones s
                          in Inr (crear_dataframe_final (datos_completos s'), s')))))"

text \<open>
  What holds of the state during a walk under a cap \<open>n\<close>: the success counter is at most
  \<open>n\<close>, it counts the stored leaves that the log reports, and every line of the log that
  starts a leaf attempt has fewer than \<open>n\<close> reports of a stored leaf before it.
\<close>

definition dentro_del_limite :: "int \<Rightarrow> estado \<Rightarrow> bool" where
  "dentro_del_limite n s \<longleftrightarrow>
     int (comunas_procesadas s) \<le> n \<and>
     comunas_procesadas s = length (filter es_exito (bitacora s)) \<and>
     (\<forall>i<length (bitacora s).
        es_intento (bitacora s ! i) \<longrightarrow> int (length (filter es_exito (take i (bitacora s)))) < n)"

section \<open>A site of two regions\<close>

text \<open>
  A page with a results table of one candidate row, and a site with two regions of three
  and four leaves, every leaf answering with the same page \<open>pag\<close>. The selectors also show
  their placeholder option.
\<close>

definition pagina_ejemplo :: pagina where
  "pagina_ejemplo = Tablas [\<lparr>is_displayed = True, text_tabla = lit ''Candidato Votos'',
     filas_tabla = [[lit ''JUAN PEREZ'', lit ''1.234'', lit ''45,6'']]\<rparr>]"

definition sitio_dos_regiones :: "pagina \<Rightarrow> sitio" where
  "sitio_dos_regiones pag =
     \<lparr>navegador_disponible = True, pagina_cargada = True, filtro_activado = True,
      opciones_region = Some
        [(lit ''Seleccionar'', None),
         (lit ''DE TARAPACA'',
            Some (map (\<lambda>n. (lit n, pag)) [''Seleccionar'', ''IQUIQUE'', ''ALTO HOSPICIO'', ''PICA''])),
         (lit ''DE ATACAMA'',
            Some (map (\<lambda>n. (lit n, pag)) [''COPIAPO'', ''CALDERA'', ''VALLENAR'', ''HUASCO'']))]\<rparr>"

section \<open>Facts about strings\<close>

lemma lit_simps:
  "lit [] = []" "lit (c # cs) = of_char c # lit cs"
  by (simp_all add: lit_def)

lemmas cadena_defs = lit_simps upper_def lower_def mayus_cp_def minus_cp_def strip_def split_def
  es_espacio_def replace_cp_def

lemma split_aux_no_vacio: "w \<in> set (split_aux acc s) \<Longrightarrow> w \<noteq> []"
  by (induction s arbitrary: acc) (auto split: if_splits)

lemma split_aux_Nil: "split_aux acc s = [] \<longleftrightarrow> acc = [] \<and> (\<forall>c\<in>set s. es_espacio c)"
  by (induction s arbitrary: acc) (auto split: if_splits)

lemma split_aux_subset: "w \<in> set (split_aux acc s) \<Longrightarrow> set w \<subseteq> set acc \<union> set s"
  by (induction s arbitrary: acc) (fastforce split: if_splits)+

lemma split_subset: "w \<in> set (split s) \<Longrightarrow> set w \<subseteq> set s"
  using split_aux_subset[of w "[]" s] by (simp add: split_def)

lemma mayus_cp_espacio: "es_espacio c \<Longrightarrow> mayus_cp c = [c]"
  by (auto simp: es_espacio_def mayus_cp_def)

lemma upper_espacios: "\<forall>c\<in>set s. es_espacio c \<Longrightarrow> upper s = s"
  by (induction s) (auto simp: upper_def mayus_cp_espacio)

lemma strip_espacios: "\<forall>c\<in>set s. es_espacio c \<Longrightarrow> strip s = []"
  by (auto simp: strip_def dropWhile_eq_Nil_conv dest: set_dropWhileD)

lemma minus_cp_no_mayuscula: "\<not> (65 \<le> minus_cp y \<and> minus_cp y \<le> 90)"
  by (auto simp: minus_cp_def)

lemma minus_cp_no_enie: "minus_cp y \<noteq> 209"
  by (auto simp: minus_cp_def)

lemma lower_sin_mayusculas: "65 \<le> p \<Longrightarrow> p \<le> 90 \<Longrightarrow> p \<notin> set (lower r)"
  using minus_cp_no_mayuscula by (auto simp: lower_def)

lemma titulo_cp_no_u: "titulo_cp c \<noteq> 117 # r"
  by (auto simp: titulo_cp_def mayus_cp_def)

lemma titulo_cp_enie: "titulo_cp c = 209 # r \<Longrightarrow> c = 241 \<or> c = 209"
  by (auto simp: titulo_cp_def mayus_cp_def split: if_splits)

lemma titulo_cola: "65 \<le> p \<Longrightarrow> p \<le> 90 \<Longrightarrow> p \<notin> set (tl (titulo_cp c @ lower r))"
  using lower_sin_mayusculas[of p r] by (auto simp: titulo_cp_def mayus_cp_def)

lemma join_sin_espacio:
  "join [32] ws = out \<Longrightarrow> 32 \<notin> set out \<Longrightarrow> ws = [] \<or> ws = [out]"
  by (induction "[32::nat]" ws rule: join.induct) auto

lemma empieza_con_iff: "empieza_con a b \<longleftrightarrow> (\<exists>q. b = a @ q)"
  by (induction a b rule: empieza_con.induct) auto

lemma contiene_iff: "contiene b a \<longleftrightarrow> (\<exists>p q. b = p @ a @ q)"
proof (induction b)
  case Nil
  then show ?case by auto
next
  case (Cons c cs)
  show ?case
  proof
    assume "contiene (c # cs) a"
    then consider "empieza_con a (c # cs)" | "contiene cs a" by auto
    then show "\<exists>p q. c # cs = p @ a @ q"
    proof cases
      case 1
      then obtain q where "c # cs = a @ q" by (auto simp: empieza_con_iff)
      then have "c # cs = [] @ a @ q" by simp
      then show ?thesis by blast
    next
      case 2
      then obtain p q where "cs = p @ a @ q" using Cons.IH by auto
      then have "c # cs = (c # p) @ a @ q" by simp
      then show ?thesis by blast
    qed
  next
    assume "\<exists>p q. c # cs = p @ a @ q"
    then obtain p q where pq: "c # cs = p @ a @ q" by auto
    show "contiene (c # cs) a"
    proof (cases p)
      case Nil
      with pq have "empieza_con a (c # cs)" by (auto simp: empieza_con_iff)
      then show ?thesis by simp
    next
      case (Cons x xs)
      with pq have "cs = xs @ a @ q" by simp
      then have "contiene cs a" using Cons.IH by blast
      then show ?thesis by simp
    qed
  qed
qed

section \<open>Candidate names\<close>

lemma buscar_exacta_find:
  "buscar_exacta m x = map_option snd (find (\<lambda>e. x = fst e) m)"
  by (induction m x rule: buscar_exacta.induct) auto

lemma buscar_parcial_find:
  "buscar_parcial m x = map_option snd (find (\<lambda>e. contiene x (fst e)) m)"
  by (induction m x rule: buscar_parcial.induct) auto

lemma find_primero:
  "i < length m \<Longrightarrow> P (m ! i) \<Longrightarrow> (\<forall>j<i. \<not> P (m ! j)) \<Longrightarrow> find P m = Some (m ! i)"
  by (auto simp: find_Some_iff)

lemma contiene_vacio: "contiene s []"
  by (cases s) auto

lemma buscar_exacta_Some: "buscar_exacta m x = Some v \<Longrightarrow> (x, v) \<in> set m"
  by (induction m x rule: buscar_exacta.induct) (auto split: if_splits)

lemma buscar_parcial_Some: "buscar_parcial m x = Some v \<Longrightarrow> \<exists>k. (k, v) \<in> set m \<and> contiene x k"
  by (induction m x rule: buscar_parcial.induct) (auto split: if_splits)

lemma slug_vacio: "slug s = [] \<longleftrightarrow> s = []"
  by (simp add: slug_def)

lemma lower_vacio: "lower s = [] \<longleftrightarrow> s = []"
  by (simp add: lower_def)

lemma candidato_desconocido_no_vacio: "candidato_desconocido \<noteq> []"
  by (simp add: candidato_desconocido_def lit_def)

lemma apellido_slug_no_vacio: "apellido_slug s \<noteq> []"
proof (cases "split s = []")
  case True
  then show ?thesis by (simp add: apellido_slug_def candidato_desconocido_no_vacio)
next
  case False
  then have "last (split s) \<in> set (split s)" by simp
  then have "last (split s) \<noteq> []" unfolding split_def by (rule split_aux_no_vacio)
  with False show ?thesis by (simp add: apellido_slug_def slug_vacio lower_vacio)
qed

text \<open>
  Claim C5, as amended. The label is upper-cased and stripped, the keys of the alias table
  are taken as they are written. If some key equals that form of the label, the result is
  the short form of the first such key; otherwise, if some key occurs in it as a
  contiguous run, the result is the short form of the first such key in the order of the
  table; otherwise it is the slug of the last token of the raw label, or the sentinel
  when the label has no token.
\<close>

theorem simplificar_orden_busqueda:
  "(i < length m \<and> fst (m ! i) = strip (upper raw) \<and> (\<forall>j<i. fst (m ! j) \<noteq> strip (upper raw))
      \<longrightarrow> simplificar_nombre_candidato m raw = snd (m ! i)) \<and>
   ((\<forall>k\<in>fst ` set m. k \<noteq> strip (upper raw)) \<and>
    i < length m \<and> (\<exists>p q. strip (upper raw) = p @ fst (m ! i) @ q) \<and>
    (\<forall>j<i. \<not> (\<exists>p q. strip (upper raw) = p @ fst (m ! j) @ q))
      \<longrightarrow> simplificar_nombre_candidato m raw = snd (m ! i)) \<and>
   ((\<forall>k\<in>fst ` set m. k \<noteq> strip (upper raw) \<and> \<not> (\<exists>p q. strip (upper raw) = p @ k @ q))
      \<longrightarrow> simplificar_nombre_candidato m raw =
            (if split raw = [] then candidato_desconocido else slug (lower (last (split raw)))))"
proof (intro conjI impI)
  let ?U = "strip (upper raw)"
  {
    assume h: "i < length m \<and> fst (m ! i) = ?U \<and> (\<forall>j<i. fst (m ! j) \<noteq> ?U)"
    then have "find (\<lambda>e. ?U = fst e) m = Some (m ! i)"
      by (intro find_primero) auto
    then show "simplificar_nombre_candidato m raw = snd (m ! i)"
      by (simp add: simplificar_nombre_candidato_def buscar_exacta_find)
  }
  {
    assume h: "(\<forall>k\<in>fst ` set m. k \<noteq> ?U) \<and> i < length m \<and> (\<exists>p q. ?U = p @ fst (m ! i) @ q) \<and>
      (\<forall>j<i. \<not> (\<exists>p q. ?U = p @ fst (m ! j) @ q))"
    then have e: "find (\<lambda>e. ?U = fst e) m = None"
      by (auto simp: find_None_iff)
    from h have "find (\<lambda>e. contiene ?U (fst e)) m = Some (m ! i)"
      by (intro find_primero) (auto simp: contiene_iff)
    with e show "simplificar_nombre_candidato m raw = snd (m ! i)"
      by (simp add: simplificar_nombre_candidato_def buscar_exacta_find buscar_parcial_find)
  }
  {
    assume h: "\<forall>k\<in>fst ` set m. k \<noteq> ?U \<and> \<not> (\<exists>p q. ?U = p @ k @ q)"
    then have e: "find (\<lambda>e. ?U = fst e) m = None"
      by (auto simp: find_None_iff)
    have "\<not> contiene ?U (fst e)" if "e \<in> set m" for e
    proof -
      from that have "fst e \<in> fst ` set m" by simp
      with h show ?thesis unfolding contiene_iff by blast
    qed
    then have "find (\<lambda>e. contiene ?U (fst e)) m = None"
      by (force simp: find_None_iff)
    with e show "simplificar_nombre_candidato m raw =
            (if split raw = [] then candidato_desconocido else slug (lower (last (split raw))))"
      by (simp add: simplificar_nombre_candidato_def buscar_exacta_find buscar_parcial_find
          apellido_slug_def)
  }
qed

theorem simplificar_orden_busqueda_witness:
  "simplificar_nombre_candidato
     [(lit ''PEREZ'', lit ''perez_j''), (lit ''JUAN'', lit ''juan'')] (lit ''Juan Perez'') = lit ''perez_j''"
proof -
  let ?m = "[(lit ''PEREZ'', lit ''perez_j''), (lit ''JUAN'', lit ''juan'')]"
  have U: "strip (upper (lit ''Juan Perez'')) = lit ''JUAN PEREZ''"
    by (simp add: cadena_defs)
  have a: "\<forall>k\<in>fst ` set ?m. k \<noteq> strip (upper (lit ''Juan Perez''))"
    unfolding U by (simp add: lit_simps)
  have "contiene (lit ''JUAN PEREZ'') (lit ''PEREZ'')" by (simp add: lit_simps)
  then have b: "\<exists>p q. strip (upper (lit ''Juan Perez'')) = p @ fst (?m ! 0) @ q"
    unfolding U by (simp add: contiene_iff)
  from simplificar_orden_busqueda[of 0 ?m "lit ''Juan Perez''"] a b show ?thesis by simp
qed

text \<open>
  A key written with small letters is never found, not even by the label that equals it:
  the comparison upper-cases the label only.
\<close>

theorem simplificar_clave_minusculas_counterexample:
  "simplificar_nombre_candidato [(lit ''Juan Perez'', lit ''jp'')] (lit ''Juan Perez'') = lit ''perez'' \<and>
   lit ''perez'' \<noteq> lit ''jp''"
  by (simp add: simplificar_nombre_candidato_def apellido_slug_def slug_def es_slug_cp_def cadena_defs)

text \<open>
  Claim C9, as amended. The function is total. When every short form of the alias table
  is non-empty, the result is non-empty, for every label. When the label has no token and
  the empty string is not a key of the table (as in the empty table), the result is the
  sentinel.
\<close>

theorem simplificar_no_vacio:
  "((\<forall>(k, v)\<in>set m. v \<noteq> []) \<longrightarrow> simplificar_nombre_candidato m s \<noteq> []) \<and>
   (split s = [] \<and> [] \<notin> fst ` set m \<longrightarrow> simplificar_nombre_candidato m s = candidato_desconocido)"
proof (intro conjI impI)
  assume h: "\<forall>(k, v)\<in>set m. v \<noteq> []"
  show "simplificar_nombre_candidato m s \<noteq> []"
    using h apellido_slug_no_vacio[of s]
    by (auto simp: simplificar_nombre_candidato_def Let_def split: option.splits
        dest!: buscar_exacta_Some buscar_parcial_Some)
next
  assume h: "split s = [] \<and> [] \<notin> fst ` set m"
  then have ws: "\<forall>c\<in>set s. es_espacio c" by (simp add: split_def split_aux_Nil)
  then have U: "strip (upper s) = []" by (simp add: upper_espacios strip_espacios)
  have e: "buscar_exacta m [] = None"
    using h by (cases "buscar_exacta m []") (auto dest!: buscar_exacta_Some simp: image_iff)
  have p: "buscar_parcial m [] = None"
    using h by (cases "buscar_parcial m []") (force dest!: buscar_parcial_Some simp: image_iff)+
  show "simplificar_nombre_candidato m s = candidato_desconocido"
    using h by (simp add: simplificar_nombre_candidato_def U e p apellido_slug_def)
qed

theorem simplificar_no_vacio_witness:
  "simplificar_nombre_candidato [(lit ''PEREZ'', lit ''perez'')] (lit ''x'') \<noteq> [] \<and>
   simplificar_nombre_candidato [(lit ''PEREZ'', lit ''perez'')] [] = candidato_desconocido \<and>
   simplificar_nombre_candidato [] [] = candidato_desconocido"
proof -
  have a: "\<forall>(k, v)\<in>set [(lit ''PEREZ'', lit ''perez'')]. v \<noteq> []"
    by (simp add: lit_simps)
  have b: "split [] = [] \<and> [] \<notin> fst ` set [(lit ''PEREZ'', lit ''perez'')]"
    by (simp add: split_def lit_simps)
  have c: "split [] = [] \<and> [] \<notin> fst ` set ([] :: mapeo)"
    by (simp add: split_def)
  from simplificar_no_vacio[of "[(lit ''PEREZ'', lit ''perez'')]" "lit ''x''"]
    simplificar_no_vacio[of "[(lit ''PEREZ'', lit ''perez'')]" "[]"]
    simplificar_no_vacio[of "[]" "[]"] a b c
  show ?thesis by blast
qed

text \<open>An alias table may hold an empty short form, and the function returns it.\<close>

theorem simplificar_alias_vacio_counterexample:
  "simplificar_nombre_candidato [(lit ''X'', [])] (lit ''X'') = []"
  by (simp add: simplificar_nombre_candidato_def cadena_defs)

section \<open>Leaf names\<close>

lemma re_sub_aux_sin_reemplazo:
  "q0 \<notin> set (re_sub_aux inc (q0 # qs) previo 0 s) \<Longrightarrow> re_sub_aux inc (q0 # qs) previo 0 s = s"
  by (induction s arbitrary: previo) (auto split: if_splits)

lemma re_sub_palabra_sin_reemplazo:
  "re_sub_palabra inc (q0 # qs) s = out \<Longrightarrow> q0 \<notin> set out \<Longrightarrow> s = out"
  unfolding re_sub_palabra_def using re_sub_aux_sin_reemplazo by metis

lemma aplicar_correcciones_eq:
  "aplicar_correcciones s =
     re_sub_palabra (lit ''Con'') (lit ''con'')
      (re_sub_palabra (lit ''En'') (lit ''en'')
       (re_sub_palabra (lit ''E'') (lit ''e'')
        (re_sub_palabra (lit ''Y'') (lit ''y'')
         (re_sub_palabra (lit ''Los'') (lit ''los'')
          (re_sub_palabra (lit ''Las'') (lit ''las'')
           (re_sub_palabra (lit ''La'') (lit ''la'')
            (re_sub_palabra (lit ''Del'') (lit ''del'')
             (re_sub_palabra (lit ''De'') (lit ''de'') s))))))))"
  by (simp add: aplicar_correcciones_def correcciones_def)

lemma aplicar_correcciones_sin_reemplazo:
  assumes "aplicar_correcciones s = out"
    and "set out \<inter> {100, 108, 121, 101, 99} = {}"
  shows "s = out"
proof -
  have n: "99 \<notin> set out" "101 \<notin> set out" "121 \<notin> set out" "108 \<notin> set out" "100 \<notin> set out"
    using assms(2) by auto
  note r = re_sub_palabra_sin_reemplazo
  from assms(1) have 1: "re_sub_palabra (lit ''Con'') (99 # lit ''on'')
      (re_sub_palabra (lit ''En'') (101 # lit ''n'')
       (re_sub_palabra (lit ''E'') (101 # [])
        (re_sub_palabra (lit ''Y'') (121 # [])
         (re_sub_palabra (lit ''Los'') (108 # lit ''os'')
          (re_sub_palabra (lit ''Las'') (108 # lit ''as'')
           (re_sub_palabra (lit ''La'') (108 # lit ''a'')
            (re_sub_palabra (lit ''Del'') (100 # lit ''el'')
             (re_sub_palabra (lit ''De'') (100 # lit ''e'') s)))))))) = out"
    by (simp add: aplicar_correcciones_eq lit_simps)
  show ?thesis
    using r[OF r[OF r[OF r[OF r[OF r[OF r[OF r[OF r[OF 1 n(1)] n(2)] n(2)] n(3)] n(4)] n(4)] n(4)] n(5)] n(5)] .
qed

lemma capitalizar_palabra_no_nunoa:
  assumes "set w \<subseteq> range minus_cp"
  shows "capitalizar_palabra w \<noteq> [209, 117, 241, 111, 97]"
proof
  assume h: "capitalizar_palabra w = [209, 117, 241, 111, 97]"
  show False
  proof (cases "upper w \<in> set excepciones")
    case True
    with h have "[209, 117, 241, 111, 97] \<in> set excepciones"
      by (simp add: capitalizar_palabra_def)
    then show False by (simp add: excepciones_def lit_simps)
  next
    case ex: False
    show False
    proof (cases "empieza_con [241] w")
      case True
      with ex h have "capitalize (drop 1 w) = [117, 241, 111, 97]"
        by (simp add: capitalizar_palabra_def)
      then show False
        by (cases "drop 1 w") (auto simp: append_eq_Cons_conv titulo_cp_no_u titulo_cp_def mayus_cp_def split: if_splits)
    next
      case False
      with ex h have c: "capitalize w = [209, 117, 241, 111, 97]"
        by (simp add: capitalizar_palabra_def)
      then obtain c cs where w: "w = c # cs" by (cases w) auto
      with c have "\<exists>r. titulo_cp c = 209 # r"
        by (auto simp: append_eq_Cons_conv titulo_cp_def mayus_cp_def split: if_splits)
      then have "c = 241 \<or> c = 209" using titulo_cp_enie by blast
      moreover have "c \<noteq> 241" using False w by auto
      moreover have "c \<noteq> 209" using assms w minus_cp_no_enie by auto
      ultimately show False by blast
    qed
  qed
qed

lemma nombres_especificos_identidad:
  "map_of nombres_especificos n = Some v \<Longrightarrow> v = n"
  by (auto simp: nombres_especificos_def map_of_map_restrict restrict_map_def split: if_splits)

lemma normalizar_nombre_comuna_eq: "normalizar_nombre_comuna x = nombre_normalizado x"
  by (auto simp: normalizar_nombre_comuna_def split: option.splits dest: nombres_especificos_identidad)

lemma nombre_normalizado_no_nunoa: "nombre_normalizado x \<noteq> [209, 117, 241, 111, 97]"
proof
  assume h: "nombre_normalizado x = [209, 117, 241, 111, 97]"
  let ?ws = "map capitalizar_palabra (split (lower x))"
  from h have "aplicar_correcciones (join [32] ?ws) = [209, 117, 241, 111, 97]"
    by (simp add: nombre_normalizado_def lit_simps)
  then have j: "join [32] ?ws = [209, 117, 241, 111, 97]"
    by (rule aplicar_correcciones_sin_reemplazo) simp
  then have "?ws = [] \<or> ?ws = [[209, 117, 241, 111, 97]]"
    by (rule join_sin_espacio) simp
  with j have "?ws = [[209, 117, 241, 111, 97]]" by auto
  then obtain w where w: "w \<in> set (split (lower x))" "capitalizar_palabra w = [209, 117, 241, 111, 97]"
    by (auto simp: map_eq_Cons_conv)
  from w(1) have "set w \<subseteq> range minus_cp"
    using split_subset[OF w(1)] by (auto simp: lower_def)
  then show False using capitalizar_palabra_no_nunoa w(2) by blast
qed

lemma re_sub_aux_identidad:
  "p0 \<notin> set (tl s) \<Longrightarrow> previo \<or> (\<forall>c r. s = c # r \<longrightarrow> c \<noteq> p0) \<Longrightarrow>
     re_sub_aux (p0 # ps) cor previo 0 s = s"
proof (induction s arbitrary: previo)
  case Nil
  then show ?case by simp
next
  case (Cons c cs)
  have nc: "\<not> coincide_palabra (p0 # ps) previo (c # cs)"
    using Cons.prems(2) by (auto simp: coincide_palabra_def)
  have "re_sub_aux (p0 # ps) cor (es_palabra_cp c) 0 cs = cs"
  proof (rule Cons.IH)
    show "p0 \<notin> set (tl cs)" using Cons.prems(1) by (cases cs) auto
    show "es_palabra_cp c \<or> (\<forall>d r. cs = d # r \<longrightarrow> d \<noteq> p0)" using Cons.prems(1) by auto
  qed
  with nc show ?case by simp
qed

lemma re_sub_palabra_enie:
  assumes "p0 \<noteq> 209" "p0 \<notin> set (tl t)"
  shows "re_sub_palabra (p0 # ps) cor (209 # t) = 209 # t"
proof -
  have nc: "\<not> coincide_palabra (p0 # ps) False (209 # t)"
    using assms(1) by (auto simp: coincide_palabra_def)
  have "re_sub_aux (p0 # ps) cor True 0 t = t"
    using assms(2) by (intro re_sub_aux_identidad) auto
  with nc show ?thesis by (simp add: re_sub_palabra_def es_palabra_cp_def)
qed

lemma aplicar_correcciones_enie:
  "aplicar_correcciones (209 # titulo_cp c @ lower r) = 209 # titulo_cp c @ lower r"
  by (simp add: aplicar_correcciones_eq lit_simps re_sub_palabra_enie titulo_cola)

lemma upper_enie_no_excepcion: "upper (241 # w) \<notin> set excepciones"
  by (simp add: upper_def mayus_cp_def excepciones_def lit_simps)

lemma capitalizar_palabra_enie:
  "capitalizar_palabra (241 # c # resto) = 209 # titulo_cp c @ lower resto"
  by (simp add: capitalizar_palabra_def upper_enie_no_excepcion)

lemma nunoa_ejemplo: "normalizar_nombre_comuna ([209] @ lit ''U'' @ [209] @ lit ''OA'') = [209] @ lit ''U'' @ [241] @ lit ''oa''"
proof -
  have s: "split (lower ([209] @ lit ''U'' @ [209] @ lit ''OA'')) = [241 # 117 # [241, 111, 97]]"
    by (simp add: lit_simps lower_def minus_cp_def split_def es_espacio_def)
  have "nombre_normalizado ([209] @ lit ''U'' @ [209] @ lit ''OA'') = 209 # titulo_cp 117 @ lower [241, 111, 97]"
    unfolding nombre_normalizado_def Let_def s
    by (simp add: capitalizar_palabra_enie aplicar_correcciones_enie)
  then show ?thesis
    by (simp add: normalizar_nombre_comuna_eq titulo_cp_def mayus_cp_def lower_def minus_cp_def lit_simps)
qed

text \<open>
  Claim C10. A token of the lower-cased name that begins with the small n with tilde
  (U+00F1) and goes on with a code point \<open>c\<close> is written with the capital (U+00D1)
  followed by the title case of \<open>c\<close>; for a name of one such token this is the result of
  the whole normalization, the corrections and the table of proper names leaving it as it
  is. The name U+00D1 U U+00D1 O A gives U+00D1 U U+00F1 o a. No name at all has
  U+00D1 u U+00F1 o a as its computed form or as its result, so the entry of that name in
  the table of proper names is never hit.
\<close>

theorem enie_doble_mayuscula:
  "capitalizar_palabra (241 # c # resto) = 209 # titulo_cp c @ lower resto \<and>
   (split (lower x) = [241 # c # resto] \<longrightarrow>
      normalizar_nombre_comuna x = 209 # titulo_cp c @ lower resto) \<and>
   normalizar_nombre_comuna ([209] @ lit ''U'' @ [209] @ lit ''OA'') = [209] @ lit ''U'' @ [241] @ lit ''oa'' \<and>
   nombre_normalizado y \<noteq> [209] @ lit ''u'' @ [241] @ lit ''oa'' \<and>
   normalizar_nombre_comuna y \<noteq> [209] @ lit ''u'' @ [241] @ lit ''oa''"
proof (intro conjI impI)
  show "capitalizar_palabra (241 # c # resto) = 209 # titulo_cp c @ lower resto"
    by (rule capitalizar_palabra_enie)
  show "normalizar_nombre_comuna x = 209 # titulo_cp c @ lower resto"
    if "split (lower x) = [241 # c # resto]"
    using that by (simp add: normalizar_nombre_comuna_eq nombre_normalizado_def
        capitalizar_palabra_enie aplicar_correcciones_enie)
  show "normalizar_nombre_comuna ([209] @ lit ''U'' @ [209] @ lit ''OA'') = [209] @ lit ''U'' @ [241] @ lit ''oa''"
    by (rule nunoa_ejemplo)
  show "nombre_normalizado y \<noteq> [209] @ lit ''u'' @ [241] @ lit ''oa''"
    using nombre_normalizado_no_nunoa[of y] by (simp add: lit_simps)
  then show "normalizar_nombre_comuna y \<noteq> [209] @ lit ''u'' @ [241] @ lit ''oa''"
    by (simp add: normalizar_nombre_comuna_eq)
qed

theorem enie_doble_mayuscula_witness:
  "split (lower ([209] @ lit ''U'' @ [209] @ lit ''OA'')) = [241 # 117 # [241, 111, 97]] \<and>
   normalizar_nombre_comuna ([209] @ lit ''U'' @ [209] @ lit ''OA'') = 209 # titulo_cp 117 @ lower [241, 111, 97]"
proof -
  have s: "split (lower ([209] @ lit ''U'' @ [209] @ lit ''OA'')) = [241 # 117 # [241, 111, 97]]"
    by (simp add: lit_simps lower_def minus_cp_def split_def es_espacio_def)
  from enie_doble_mayuscula[of 117 "[241, 111, 97]" "[209] @ lit ''U'' @ [209] @ lit ''OA''" "[]"] s
  show ?thesis by blast
qed

section \<open>The scenario of the Leaf Extractor\<close>

lemmas fila_defs = procesar_fila_def isdigit_def py_int_def py_float_def valor_decimal_def
  es_decimal_cp_def es_digito_cp_def marcadores_encabezado_def simplificar_nombre_candidato_def
  apellido_slug_def slug_def es_slug_cp_def

lemma fold_condicional:
  "fold (\<lambda>x a. if P x then f x a else a) xs a = fold f (filter P xs) a"
  by (induction xs arbitrary: a) auto

lemma fila_perez:
  "procesar_fila [] [lit ''JUAN PEREZ'', lit ''1.234'', lit ''45,6''] ([], []) =
     ([(lit ''perez'', \<lparr>votos = 1234, porcentaje = 456 / 10\<rparr>)], [])"
  by (simp add: cadena_defs fila_defs)

lemma fila_blanco:
  "procesar_fila [] [lit ''BLANCO'', lit ''10'', lit ''0,4''] (dc, []) =
     (dc, [(lit ''blanco'', \<lparr>votos = 10, porcentaje = 4 / 10\<rparr>)])"
  by (simp add: cadena_defs fila_defs)

lemma fila_emitidos:
  "procesar_fila [] [lit ''TOTAL EMITIDOS'', lit ''1.244'', lit ''100,0''] (dc, [(lit ''blanco'', b)]) =
     (dc, [(lit ''blanco'', b), (lit ''emitidos'', \<lparr>votos = 1244, porcentaje = 100\<rparr>)])"
  by (simp add: cadena_defs fila_defs)

text \<open>
  Claim C4. With an empty alias table, when the results table that is found has, as its
  rows of three cells or more, the rows (JUAN PEREZ, 1.234, 45,6), (BLANCO, 10, 0,4) and
  (TOTAL EMITIDOS, 1.244, 100,0), the extraction returns the candidates
  \<open>{perez: (1234, 45.6)}\<close> and the totals \<open>{blanco: (10, 0.4), emitidos: (1244, 100.0)}\<close>.
\<close>

theorem extraccion_escenario:
  assumes "encontrar_tabla_resultados tablas = Some t"
    and "filter (\<lambda>celdas. 3 \<le> length celdas) (filas_tabla t) =
           [[lit ''JUAN PEREZ'', lit ''1.234'', lit ''45,6''],
            [lit ''BLANCO'', lit ''10'', lit ''0,4''],
            [lit ''TOTAL EMITIDOS'', lit ''1.244'', lit ''100,0'']]"
  shows "extraer_datos_comuna [] (Tablas tablas) =
           Some ([(lit ''perez'', \<lparr>votos = 1234, porcentaje = 456 / 10\<rparr>)],
                 [(lit ''blanco'', \<lparr>votos = 10, porcentaje = 4 / 10\<rparr>),
                  (lit ''emitidos'', \<lparr>votos = 1244, porcentaje = 100\<rparr>)])"
  using assms
  by (simp add: extraer_datos_comuna_def procesar_tabla_resultados_def fold_condicional
      fila_perez fila_blanco fila_emitidos)

theorem extraccion_escenario_witness:
  "extraer_datos_comuna []
     (Tablas [\<lparr>is_displayed = False, text_tabla = lit ''VOTOS'', filas_tabla = []\<rparr>,
              \<lparr>is_displayed = True, text_tabla = lit ''Candidato Votos'',
               filas_tabla = [[], [lit ''JUAN PEREZ'', lit ''1.234'', lit ''45,6''],
                 [lit ''BLANCO'', lit ''10'', lit ''0,4''], [lit ''x''],
                 [lit ''TOTAL EMITIDOS'', lit ''1.244'', lit ''100,0'']]\<rparr>]) =
           Some ([(lit ''perez'', \<lparr>votos = 1234, porcentaje = 456 / 10\<rparr>)],
                 [(lit ''blanco'', \<lparr>votos = 10, porcentaje = 4 / 10\<rparr>),
                  (lit ''emitidos'', \<lparr>votos = 1244, porcentaje = 100\<rparr>)])"
proof -
  let ?t = "\<lparr>is_displayed = True, text_tabla = lit ''Candidato Votos'',
               filas_tabla = [[], [lit ''JUAN PEREZ'', lit ''1.234'', lit ''45,6''],
                 [lit ''BLANCO'', lit ''10'', lit ''0,4''], [lit ''x''],
                 [lit ''TOTAL EMITIDOS'', lit ''1.244'', lit ''100,0'']]\<rparr>"
  let ?ts = "[\<lparr>is_displayed = False, text_tabla = lit ''VOTOS'', filas_tabla = []\<rparr>, ?t]"
  have a: "encontrar_tabla_resultados ?ts = Some ?t"
    by (simp add: encontrar_tabla_resultados_def marcadores_tabla_def cadena_defs)
  have b: "filter (\<lambda>celdas. 3 \<le> length celdas) (filas_tabla ?t) =
           [[lit ''JUAN PEREZ'', lit ''1.234'', lit ''45,6''],
            [lit ''BLANCO'', lit ''10'', lit ''0,4''],
            [lit ''TOTAL EMITIDOS'', lit ''1.244'', lit ''100,0'']]"
    by (simp add: lit_simps)
  show ?thesis by (rule extraccion_escenario[OF a b])
qed

section \<open>The store and the matrix\<close>

lemma dict_set_presente:
  "k \<in> fst ` set d \<Longrightarrow> map fst (dict_set d k v) = map fst d"
  by (induction d k v rule: dict_set.induct) auto

lemma dict_set_ausente:
  "k \<notin> fst ` set d \<Longrightarrow> dict_set d k v = d @ [(k, v)]"
  by (induction d k v rule: dict_set.induct) auto

lemma map_of_dict_set: "map_of (dict_set d k v) = (map_of d)(k \<mapsto> v)"
  by (induction d k v rule: dict_set.induct) (auto simp: fun_upd_twist)

lemma claves_dict_set: "fst ` set (dict_set d k v) = insert k (fst ` set d)"
  by (induction d k v rule: dict_set.induct) auto

lemma distinct_dict_set:
  "distinct (map fst d) \<Longrightarrow> distinct (map fst (dict_set d k v))"
  by (induction d k v rule: dict_set.induct) (auto simp: claves_dict_set)

lemma set_dict_set:
  "distinct (map fst d) \<Longrightarrow> set (dict_set d k v) = insert (k, v) {e \<in> set d. fst e \<noteq> k}"
  by (induction d k v rule: dict_set.induct) (auto simp: rev_image_eqI)

lemma set_sorted_union: "set (sorted_union xss) = \<Union> (set ` set xss)"
  by (simp add: sorted_union_def)

lemma sorted_sorted_union: "sorted (sorted_union xss)"
  by (simp add: sorted_union_def)

lemma distinct_sorted_union: "distinct (sorted_union xss)"
  by (simp add: sorted_union_def)

lemma sorted_union_unico:
  "sorted ys \<Longrightarrow> distinct ys \<Longrightarrow> set ys = \<Union> (set ` set xss) \<Longrightarrow> sorted_union xss = ys"
  by (rule sorted_distinct_set_unique)
     (simp_all add: sorted_sorted_union distinct_sorted_union set_sorted_union)

lemma sorted_union_nuevo:
  assumes "e \<in> set ys" "e \<notin> \<Union> (set ` set xss)" "set ys \<subseteq> insert e (\<Union> (set ` set xss))"
  shows "sorted_union (xss @ [ys]) = insort e (sorted_union xss)"
proof (rule sorted_union_unico)
  show "sorted (insort e (sorted_union xss))"
    by (simp add: sorted_insort sorted_sorted_union)
  show "distinct (insort e (sorted_union xss))"
    using assms(2) by (simp add: distinct_insort distinct_sorted_union set_sorted_union)
  show "set (insort e (sorted_union xss)) = \<Union> (set ` set (xss @ [ys]))"
    using assms by (auto simp: set_insort_key set_sorted_union)
qed

lemma sorted_union_visto:
  assumes "set ys \<subseteq> \<Union> (set ` set xss)"
  shows "sorted_union (xss @ [ys]) = sorted_union xss"
proof (rule sorted_union_unico)
  show "set (sorted_union xss) = \<Union> (set ` set (xss @ [ys]))"
    using assms by (auto simp: set_sorted_union)
qed (simp_all add: sorted_sorted_union distinct_sorted_union)

lemma length_celdas_de: "length (celdas_de reg n) = 2"
  by (simp add: celdas_de_def split: option.splits)

lemma concat_pares:
  assumes "\<And>x. length (g x) = 2"
  shows "length (concat (map g xs)) = 2 * length xs"
    and "i < length xs \<Longrightarrow> concat (map g xs) ! (2 * i) = g (xs ! i) ! 0"
    and "i < length xs \<Longrightarrow> concat (map g xs) ! (2 * i + 1) = g (xs ! i) ! 1"
proof -
  show l: "length (concat (map g xs)) = 2 * length xs" for xs
    by (induction xs) (simp_all add: assms)
  show "i < length xs \<Longrightarrow> concat (map g xs) ! (2 * i) = g (xs ! i) ! 0"
  proof (induction xs arbitrary: i)
    case Nil
    then show ?case by simp
  next
    case (Cons x xs)
    show ?case
    proof (cases i)
      case 0
      then show ?thesis by (simp add: nth_append assms)
    next
      case (Suc j)
      with Cons show ?thesis by (simp add: nth_append assms)
    qed
  qed
  show "i < length xs \<Longrightarrow> concat (map g xs) ! (2 * i + 1) = g (xs ! i) ! 1"
  proof (induction xs arbitrary: i)
    case Nil
    then show ?case by simp
  next
    case (Cons x xs)
    show ?case
    proof (cases i)
      case 0
      then show ?thesis by (simp add: nth_append assms)
    next
      case (Suc j)
      with Cons show ?thesis by (simp add: nth_append assms)
    qed
  qed
qed

lemma identidad_fila_de: "identidad (fila_de cands tots e) = fst e"
  by (cases e) (auto simp: identidad_def fila_de_def)

lemma length_fila_de:
  "length (fila_de cands tots e) = 2 + 2 * length cands + 2 * length tots"
  by (cases e) (auto simp: fila_de_def concat_pares(1)[OF length_celdas_de])

lemma length_columnas_de: "length (columnas_de ns) = 2 * length ns"
  by (induction ns) (simp_all add: columnas_de_def)

lemma fila_de_candidato:
  assumes "i < length cands"
  shows "fila_de cands tots (k, d) ! (2 + 2 * i) = celdas_de (candidatos d) (cands ! i) ! 0"
    and "fila_de cands tots (k, d) ! (3 + 2 * i) = celdas_de (candidatos d) (cands ! i) ! 1"
proof -
  let ?A = "concat (map (celdas_de (candidatos d)) cands)"
  let ?B = "concat (map (celdas_de (totales d)) tots)"
  have f: "fila_de cands tots (k, d) = [Texto (fst k), Texto (snd k)] @ ?A @ ?B"
    by (cases k) (simp add: fila_de_def)
  have l: "length ?A = 2 * length cands"
    by (rule concat_pares(1)[OF length_celdas_de])
  have "fila_de cands tots (k, d) ! (2 + 2 * i) = ?A ! (2 * i)"
    using assms l unfolding f by (simp add: nth_append)
  then show "fila_de cands tots (k, d) ! (2 + 2 * i) = celdas_de (candidatos d) (cands ! i) ! 0"
    using concat_pares(2)[OF length_celdas_de assms] by simp
  have "3 + 2 * i = 2 + (2 * i + 1)" by simp
  then have "fila_de cands tots (k, d) ! (3 + 2 * i) = ?A ! (2 * i + 1)"
    using assms l unfolding f by (simp add: nth_append)
  then show "fila_de cands tots (k, d) ! (3 + 2 * i) = celdas_de (candidatos d) (cands ! i) ! 1"
    using concat_pares(3)[OF length_celdas_de assms] by simp
qed

lemma fila_de_total:
  assumes "i < length tots"
  shows "fila_de cands tots (k, d) ! (2 + 2 * length cands + 2 * i) = celdas_de (totales d) (tots ! i) ! 0"
    and "fila_de cands tots (k, d) ! (3 + 2 * length cands + 2 * i) = celdas_de (totales d) (tots ! i) ! 1"
proof -
  let ?A = "concat (map (celdas_de (candidatos d)) cands)"
  let ?B = "concat (map (celdas_de (totales d)) tots)"
  have f: "fila_de cands tots (k, d) = ([Texto (fst k), Texto (snd k)] @ ?A) @ ?B"
    by (cases k) (simp add: fila_de_def)
  have l: "length ([Texto (fst k), Texto (snd k)] @ ?A) = 2 + 2 * length cands"
    using concat_pares(1)[of "celdas_de (candidatos d)" cands, OF length_celdas_de] by simp
  have "fila_de cands tots (k, d) ! ((2 + 2 * length cands) + 2 * i) = ?B ! (2 * i)"
    unfolding f using l by (metis nth_append_length_plus)
  moreover have "?B ! (2 * i) = celdas_de (totales d) (tots ! i) ! 0"
    using concat_pares(2)[of "celdas_de (totales d)" i tots] length_celdas_de assms by simp
  ultimately show "fila_de cands tots (k, d) ! (2 + 2 * length cands + 2 * i) = celdas_de (totales d) (tots ! i) ! 0"
    by simp
  have "fila_de cands tots (k, d) ! ((2 + 2 * length cands) + (2 * i + 1)) = ?B ! (2 * i + 1)"
    unfolding f using l by (metis nth_append_length_plus)
  moreover have "(2 + 2 * length cands) + (2 * i + 1) = 3 + 2 * length cands + 2 * i" by simp
  moreover have "?B ! (2 * i + 1) = celdas_de (totales d) (tots ! i) ! 1"
    using concat_pares(3)[of "celdas_de (totales d)" i tots] length_celdas_de assms by simp
  ultimately show "fila_de cands tots (k, d) ! (3 + 2 * length cands + 2 * i) = celdas_de (totales d) (tots ! i) ! 1"
    by metis
qed

lemma columnas_de_nth:
  assumes "i < length ns"
  shows "columnas_de ns ! (2 * i) = ns ! i @ lit ''_votos''"
    and "columnas_de ns ! (2 * i + 1) = ns ! i @ lit ''_pct''"
  using concat_pares(2,3)[of "\<lambda>n. [n @ lit ''_votos'', n @ lit ''_pct'']" i ns] assms
  by (simp_all add: columnas_de_def)

lemma distinct_map_insort_key:
  "distinct (map g (insort_key f x xs)) \<longleftrightarrow> g x \<notin> g ` set xs \<and> distinct (map g xs)"
  by (induction xs) (auto simp: set_insort_key)

lemma distinct_map_sort_key: "distinct (map g (sort_key f xs)) \<longleftrightarrow> distinct (map g xs)"
  by (induction xs) (auto simp: distinct_map_insort_key)

lemma filas_crear: "filas (crear_dataframe_final a) =
  sort_values (map (fila_de (todos_candidatos a) (todos_totales a)) a)"
  by (simp add: crear_dataframe_final_def Let_def)

lemma set_filas: "set (filas (crear_dataframe_final a)) =
   fila_de (todos_candidatos a) (todos_totales a) ` set a"
  by (simp add: filas_crear sort_values_def)

lemma identidades_filas: "set (map identidad (filas (crear_dataframe_final a))) = fst ` set a"
  by (force simp: set_filas identidad_fila_de image_iff)

lemma distinct_identidades:
  "distinct (map fst a) \<Longrightarrow> distinct (map identidad (filas (crear_dataframe_final a)))"
proof -
  assume d: "distinct (map fst a)"
  have m: "map (identidad \<circ> fila_de (todos_candidatos a) (todos_totales a)) a = map fst a"
    by (simp add: identidad_fila_de)
  show ?thesis
    unfolding filas_crear sort_values_def distinct_map_sort_key map_map m using d .
qed

lemma filas_ordenadas:
  "sorted (map (\<lambda>f. (snd (identidad f), fst (identidad f))) (filas (crear_dataframe_final a)))"
  using sorted_sort_key[of "\<lambda>f. (texto (f ! 1), texto (f ! 0))"]
  by (simp add: filas_crear sort_values_def identidad_def)

lemma set_todos_candidatos:
  "set (todos_candidatos a) = (\<Union>e\<in>set a. fst ` set (candidatos (snd e)))"
  by (auto simp: todos_candidatos_def set_sorted_union split: prod.splits) force+

lemma set_todos_totales:
  "set (todos_totales a) = (\<Union>e\<in>set a. fst ` set (totales (snd e)))"
  by (auto simp: todos_totales_def set_sorted_union split: prod.splits) force+

lemma columnas_crear:
  "columnas (crear_dataframe_final a) =
     [lit ''comuna'', lit ''region''] @ columnas_de (todos_candidatos a) @ columnas_de (todos_totales a)"
  by (simp add: crear_dataframe_final_def Let_def)

lemma length_columnas_crear:
  "length (columnas (crear_dataframe_final a)) =
     2 + 2 * length (todos_candidatos a) + 2 * length (todos_totales a)"
  by (simp add: columnas_crear length_columnas_de)

lemma celdas_de_valor:
  "(celdas_de reg n ! 0, celdas_de reg n ! 1) =
     (case map_of reg n of Some r \<Rightarrow> (Entero (votos r), Decimal (porcentaje r))
      | None \<Rightarrow> (Entero 0, Decimal 0))"
  by (simp add: celdas_de_def split: option.splits)

lemma celdas_de_ausente:
  "n \<notin> fst ` set reg \<Longrightarrow> celdas_de reg n = [Entero 0, Decimal 0]"
  by (simp add: celdas_de_def map_of_eq_None_iff[THEN iffD2])

lemma fila_de_texto:
  "fila_de cands tots e ! 0 = Texto (fst (fst e))" "fila_de cands tots e ! 1 = Texto (snd (fst e))"
  by (cases e; auto simp: fila_de_def)+

lemma filas_del_almacen:
  "distinct (map fst almacen) \<and> df = crear_dataframe_final almacen \<and>
   cands = todos_candidatos almacen \<and> tots = todos_totales almacen \<longrightarrow>
   length (filas df) = length almacen \<and>
   distinct (map identidad (filas df)) \<and>
   set (map identidad (filas df)) = fst ` set almacen \<and>
   sorted (map (\<lambda>f. (snd (identidad f), fst (identidad f))) (filas df)) \<and>
   (\<forall>f\<in>set (filas df). \<exists>d.
      map_of almacen (identidad f) = Some d \<and>
      length f = length (columnas df) \<and>
      f ! 0 = Texto (fst (identidad f)) \<and> f ! 1 = Texto (snd (identidad f)) \<and>
      (\<forall>i<length cands.
         (f ! (2 + 2 * i), f ! (3 + 2 * i)) =
           (case map_of (candidatos d) (cands ! i) of
              Some r \<Rightarrow> (Entero (votos r), Decimal (porcentaje r))
            | None \<Rightarrow> (Entero 0, Decimal 0))) \<and>
      (\<forall>i<length tots.
         (f ! (2 + 2 * length cands + 2 * i), f ! (3 + 2 * length cands + 2 * i)) =
           (case map_of (totales d) (tots ! i) of
              Some r \<Rightarrow> (Entero (votos r), Decimal (porcentaje r))
            | None \<Rightarrow> (Entero 0, Decimal 0))))"
proof (intro impI)
  assume h: "distinct (map fst almacen) \<and> df = crear_dataframe_final almacen \<and>
   cands = todos_candidatos almacen \<and> tots = todos_totales almacen"
  then have dist: "distinct (map fst almacen)" and df: "df = crear_dataframe_final almacen"
    and c: "cands = todos_candidatos almacen" and t: "tots = todos_totales almacen"
    by simp_all
  have 1: "length (filas df) = length almacen"
    by (simp add: df filas_crear sort_values_def)
  have 2: "distinct (map identidad (filas df))"
    unfolding df using dist by (rule distinct_identidades)
  have 3: "set (map identidad (filas df)) = fst ` set almacen"
    unfolding df by (rule identidades_filas)
  have 4: "sorted (map (\<lambda>f. (snd (identidad f), fst (identidad f))) (filas df))"
    unfolding df by (rule filas_ordenadas)
  have 5: "\<exists>d. map_of almacen (identidad f) = Some d \<and>
      length f = length (columnas df) \<and>
      f ! 0 = Texto (fst (identidad f)) \<and> f ! 1 = Texto (snd (identidad f)) \<and>
      (\<forall>i<length cands.
         (f ! (2 + 2 * i), f ! (3 + 2 * i)) =
           (case map_of (candidatos d) (cands ! i) of
              Some r \<Rightarrow> (Entero (votos r), Decimal (porcentaje r))
            | None \<Rightarrow> (Entero 0, Decimal 0))) \<and>
      (\<forall>i<length tots.
         (f ! (2 + 2 * length cands + 2 * i), f ! (3 + 2 * length cands + 2 * i)) =
           (case map_of (totales d) (tots ! i) of
              Some r \<Rightarrow> (Entero (votos r), Decimal (porcentaje r))
            | None \<Rightarrow> (Entero 0, Decimal 0)))"
    if "f \<in> set (filas df)" for f
  proof -
    from that obtain k d where e: "(k, d) \<in> set almacen" and f: "f = fila_de cands tots (k, d)"
      by (auto simp: df set_filas c t)
    have id: "identidad f = k" by (simp add: f identidad_fila_de)
    have m: "map_of almacen (identidad f) = Some d"
      using dist e by (simp add: id)
    have l: "length f = length (columnas df)"
      by (simp add: f length_fila_de df length_columnas_crear c t)
    have tx: "f ! 0 = Texto (fst (identidad f))" "f ! 1 = Texto (snd (identidad f))"
      using fila_de_texto[of cands tots "(k, d)"] by (simp_all add: f identidad_fila_de)
    have cc: "(f ! (2 + 2 * i), f ! (3 + 2 * i)) =
           (case map_of (candidatos d) (cands ! i) of
              Some r \<Rightarrow> (Entero (votos r), Decimal (porcentaje r))
            | None \<Rightarrow> (Entero 0, Decimal 0))" if "i < length cands" for i
      unfolding f fila_de_candidato[OF that] by (rule celdas_de_valor)
    have tt: "(f ! (2 + 2 * length cands + 2 * i), f ! (3 + 2 * length cands + 2 * i)) =
           (case map_of (totales d) (tots ! i) of
              Some r \<Rightarrow> (Entero (votos r), Decimal (porcentaje r))
            | None \<Rightarrow> (Entero 0, Decimal 0))" if "i < length tots" for i
      unfolding f fila_de_total[OF that] by (rule celdas_de_valor)
    from m l tx cc tt show ?thesis by blast
  qed
  from 1 2 3 4 5 show "length (filas df) = length almacen \<and>
   distinct (map identidad (filas df)) \<and>
   set (map identidad (filas df)) = fst ` set almacen \<and>
   sorted (map (\<lambda>f. (snd (identidad f), fst (identidad f))) (filas df)) \<and>
   (\<forall>f\<in>set (filas df). \<exists>d.
      map_of almacen (identidad f) = Some d \<and>
      length f = length (columnas df) \<and>
      f ! 0 = Texto (fst (identidad f)) \<and> f ! 1 = Texto (snd (identidad f)) \<and>
      (\<forall>i<length cands.
         (f ! (2 + 2 * i), f ! (3 + 2 * i)) =
           (case map_of (candidatos d) (cands ! i) of
              Some r \<Rightarrow> (Entero (votos r), Decimal (porcentaje r))
            | None \<Rightarrow> (Entero 0, Decimal 0))) \<and>
      (\<forall>i<length tots.
         (f ! (2 + 2 * length cands + 2 * i), f ! (3 + 2 * length cands + 2 * i)) =
           (case map_of (totales d) (tots ! i) of
              Some r \<Rightarrow> (Entero (votos r), Decimal (porcentaje r))
            | None \<Rightarrow> (Entero 0, Decimal 0))))"
    by blast
qed

lemma pci_exito:
  assumes "extraer_datos_comuna M (snd c) = Some (dc, dt)" "dc \<noteq> []"
  shows "procesar_comuna_individual M c r s =
     s\<lparr>datos_completos :=
          dict_set (datos_completos s) (normalizar_nombre_comuna (fst c), r)
            \<lparr>candidatos = dc, totales = dt\<rparr>,
       comunas_procesadas := comunas_procesadas s + 1,
       bitacora := bitacora s @ [Procesando (normalizar_nombre_comuna (fst c)) r,
                                 Extraida (normalizar_nombre_comuna (fst c))]\<rparr>"
  using assms by (simp add: procesar_comuna_individual_def Let_def)

lemma pci_fallo:
  assumes "extraer_datos_comuna M (snd c) = None \<or> (\<exists>dt. extraer_datos_comuna M (snd c) = Some ([], dt))"
  shows "procesar_comuna_individual M c r s =
     s\<lparr>comunas_con_error := comunas_con_error s + 1,
       bitacora := bitacora s @ [Procesando (normalizar_nombre_comuna (fst c)) r,
                                 SinDatos (normalizar_nombre_comuna (fst c))]\<rparr>"
  using assms by (auto simp: procesar_comuna_individual_def Let_def)

lemma extraer_sin_tabla:
  "pag = SeleccionFallida \<or> pag = TimeoutTabla \<or> pag = ErrorLectura \<or>
   (\<exists>ts. pag = Tablas ts \<and> encontrar_tabla_resultados ts = None) \<Longrightarrow>
   extraer_datos_comuna M pag = None"
  by (auto simp: extraer_datos_comuna_def procesar_tabla_resultados_def)

lemma filter_clave_unica:
  "distinct (map fst d) \<Longrightarrow> (k, v) \<in> set d \<Longrightarrow> filter (\<lambda>e. fst e = k) d = [(k, v)]"
proof (induction d)
  case Nil
  then show ?case by simp
next
  case (Cons a d)
  show ?case
  proof (cases "fst a = k")
    case True
    with Cons.prems have "a = (k, v)" by (cases a) (auto simp: image_iff)
    moreover from True Cons.prems have "filter (\<lambda>e. fst e = k) d = []"
      by (auto simp: filter_empty_conv image_iff)
    ultimately show ?thesis by simp
  next
    case False
    with Cons show ?thesis by auto
  qed
qed

lemma fila_de_la_clave:
  assumes "distinct (map fst a)" "(k, h) \<in> set a"
  shows "filter (\<lambda>f. identidad f = k) (filas (crear_dataframe_final a)) =
           [fila_de (todos_candidatos a) (todos_totales a) (k, h)]"
proof -
  let ?F = "fila_de (todos_candidatos a) (todos_totales a)"
  have "filter (\<lambda>f. identidad f = k) (map ?F a) = map ?F (filter (\<lambda>e. fst e = k) a)"
    by (simp add: filter_map comp_def identidad_fila_de)
  also have "\<dots> = [?F (k, h)]"
    by (simp add: filter_clave_unica[OF assms])
  finally show ?thesis
    by (simp add: filas_crear sort_values_def filter_sort)
qed

lemma reinsercion_en_almacen:
  "distinct (map fst almacen) \<and> k \<in> fst ` set almacen \<and> a' = dict_set almacen k h \<longrightarrow>
   length a' = length almacen \<and>
   map fst a' = map fst almacen \<and>
   distinct (map fst a') \<and>
   map_of a' k = Some h \<and>
   length (filas (crear_dataframe_final a')) = length (filas (crear_dataframe_final almacen)) \<and>
   filter (\<lambda>f. identidad f = k) (filas (crear_dataframe_final a')) =
     [fila_de (todos_candidatos a') (todos_totales a') (k, h)]"
proof (intro impI)
  assume asm: "distinct (map fst almacen) \<and> k \<in> fst ` set almacen \<and> a' = dict_set almacen k h"
  then have d: "distinct (map fst almacen)" and k: "k \<in> fst ` set almacen"
    and a': "a' = dict_set almacen k h" by simp_all
  have m: "map fst a' = map fst almacen"
    unfolding a' using k by (rule dict_set_presente)
  then have l: "length a' = length almacen" by (metis length_map)
  have d': "distinct (map fst a')" using d m by simp
  have mo: "map_of a' k = Some h" by (simp add: a' map_of_dict_set)
  then have "(k, h) \<in> set a'" by (rule map_of_SomeD)
  with d' have f: "filter (\<lambda>f. identidad f = k) (filas (crear_dataframe_final a')) =
     [fila_de (todos_candidatos a') (todos_totales a') (k, h)]"
    by (rule fila_de_la_clave)
  have "length (filas (crear_dataframe_final a')) = length (filas (crear_dataframe_final almacen))"
    by (simp add: filas_crear sort_values_def l)
  with m l d' mo f show "length a' = length almacen \<and>
   map fst a' = map fst almacen \<and>
   distinct (map fst a') \<and>
   map_of a' k = Some h \<and>
   length (filas (crear_dataframe_final a')) = length (filas (crear_dataframe_final almacen)) \<and>
   filter (\<lambda>f. identidad f = k) (filas (crear_dataframe_final a')) =
     [fila_de (todos_candidatos a') (todos_totales a') (k, h)]"
    by blast
qed

lemma todos_candidatos_append:
  "todos_candidatos (a @ [(k, h)]) =
     sorted_union (map (\<lambda>(k, datos). map fst (candidatos datos)) a @ [map fst (candidatos h)])"
  by (simp add: todos_candidatos_def)

lemma todos_totales_append:
  "todos_totales (a @ [(k, h)]) =
     sorted_union (map (\<lambda>(k, datos). map fst (totales datos)) a @ [map fst (totales h)])"
  by (simp add: todos_totales_def)

lemma union_nombres_candidatos:
  "\<Union> (set ` set (map (\<lambda>(k, datos). map fst (candidatos datos)) a)) = set (todos_candidatos a)"
  by (simp add: todos_candidatos_def set_sorted_union)

lemma union_nombres_totales:
  "\<Union> (set ` set (map (\<lambda>(k, datos). map fst (totales datos)) a)) = set (todos_totales a)"
  by (simp add: todos_totales_def set_sorted_union)

lemma esquema_candidato_nuevo:
  assumes "k \<notin> fst ` set a" "e \<in> fst ` set (candidatos h)" "e \<notin> set (todos_candidatos a)"
    "fst ` set (candidatos h) \<subseteq> insert e (set (todos_candidatos a))"
    "fst ` set (totales h) \<subseteq> set (todos_totales a)"
  shows "todos_candidatos (dict_set a k h) = insort e (todos_candidatos a)"
    and "todos_totales (dict_set a k h) = todos_totales a"
proof -
  let ?C = "map (\<lambda>(k, datos). map fst (candidatos datos)) a"
  let ?T = "map (\<lambda>(k, datos). map fst (totales datos)) a"
  have a': "dict_set a k h = a @ [(k, h)]" using assms(1) by (rule dict_set_ausente)
  have "sorted_union (?C @ [map fst (candidatos h)]) = insort e (sorted_union ?C)"
  proof (rule sorted_union_nuevo)
    show "e \<in> set (map fst (candidatos h))" using assms(2) by simp
    show "e \<notin> \<Union> (set ` set ?C)" unfolding union_nombres_candidatos using assms(3) .
    show "set (map fst (candidatos h)) \<subseteq> insert e (\<Union> (set ` set ?C))"
      unfolding union_nombres_candidatos using assms(4) by simp
  qed
  then show "todos_candidatos (dict_set a k h) = insort e (todos_candidatos a)"
    unfolding a' todos_candidatos_append by (simp add: todos_candidatos_def)
  have "sorted_union (?T @ [map fst (totales h)]) = sorted_union ?T"
  proof (rule sorted_union_visto)
    show "set (map fst (totales h)) \<subseteq> \<Union> (set ` set ?T)"
      unfolding union_nombres_totales using assms(5) by simp
  qed
  then show "todos_totales (dict_set a k h) = todos_totales a"
    unfolding a' todos_totales_append by (simp add: todos_totales_def)
qed

lemma esquema_total_nuevo:
  assumes "k \<notin> fst ` set a" "e \<in> fst ` set (totales h)" "e \<notin> set (todos_totales a)"
    "fst ` set (totales h) \<subseteq> insert e (set (todos_totales a))"
    "fst ` set (candidatos h) \<subseteq> set (todos_candidatos a)"
  shows "todos_totales (dict_set a k h) = insort e (todos_totales a)"
    and "todos_candidatos (dict_set a k h) = todos_candidatos a"
proof -
  let ?C = "map (\<lambda>(k, datos). map fst (candidatos datos)) a"
  let ?T = "map (\<lambda>(k, datos). map fst (totales datos)) a"
  have a': "dict_set a k h = a @ [(k, h)]" using assms(1) by (rule dict_set_ausente)
  have "sorted_union (?T @ [map fst (totales h)]) = insort e (sorted_union ?T)"
  proof (rule sorted_union_nuevo)
    show "e \<in> set (map fst (totales h))" using assms(2) by simp
    show "e \<notin> \<Union> (set ` set ?T)" unfolding union_nombres_totales using assms(3) .
    show "set (map fst (totales h)) \<subseteq> insert e (\<Union> (set ` set ?T))"
      unfolding union_nombres_totales using assms(4) by simp
  qed
  then show "todos_totales (dict_set a k h) = insort e (todos_totales a)"
    unfolding a' todos_totales_append by (simp add: todos_totales_def)
  have "sorted_union (?C @ [map fst (candidatos h)]) = sorted_union ?C"
  proof (rule sorted_union_visto)
    show "set (map fst (candidatos h)) \<subseteq> \<Union> (set ` set ?C)"
      unfolding union_nombres_candidatos using assms(5) by simp
  qed
  then show "todos_candidatos (dict_set a k h) = todos_candidatos a"
    unfolding a' todos_candidatos_append by (simp add: todos_candidatos_def)
qed

lemma fila_previa:
  assumes "distinct (map fst a)" "f \<in> set (filas (crear_dataframe_final (dict_set a k h)))"
    "identidad f \<noteq> k"
  shows "\<exists>k' d. (k', d) \<in> set a \<and>
     f = fila_de (todos_candidatos (dict_set a k h)) (todos_totales (dict_set a k h)) (k', d)"
proof -
  from assms(2) obtain k' d where e: "(k', d) \<in> set (dict_set a k h)"
    and f: "f = fila_de (todos_candidatos (dict_set a k h)) (todos_totales (dict_set a k h)) (k', d)"
    by (auto simp: set_filas)
  from f assms(3) have "k' \<noteq> k" by (simp add: identidad_fila_de)
  with e have "(k', d) \<in> set a" by (simp add: set_dict_set[OF assms(1)])
  with f show ?thesis by blast
qed

lemma cero_candidato_nuevo:
  assumes "distinct (map fst a)" "e \<notin> set (todos_candidatos a)"
    "f \<in> set (filas (crear_dataframe_final (dict_set a k h)))" "identidad f \<noteq> k"
    "i < length (todos_candidatos (dict_set a k h))" "todos_candidatos (dict_set a k h) ! i = e"
  shows "f ! (2 + 2 * i) = Entero 0 \<and> f ! (3 + 2 * i) = Decimal 0"
proof -
  from fila_previa[OF assms(1,3,4)] obtain k' d where e: "(k', d) \<in> set a"
    and f: "f = fila_de (todos_candidatos (dict_set a k h)) (todos_totales (dict_set a k h)) (k', d)"
    by blast
  from e assms(2) have "e \<notin> fst ` set (candidatos d)"
    by (force simp: set_todos_candidatos)
  then have "celdas_de (candidatos d) e = [Entero 0, Decimal 0]" by (rule celdas_de_ausente)
  then show ?thesis
    unfolding f fila_de_candidato[OF assms(5)] assms(6) by simp
qed

lemma cero_total_nuevo:
  assumes "distinct (map fst a)" "e \<notin> set (todos_totales a)"
    "f \<in> set (filas (crear_dataframe_final (dict_set a k h)))" "identidad f \<noteq> k"
    "i < length (todos_totales (dict_set a k h))" "todos_totales (dict_set a k h) ! i = e"
  shows "f ! (2 + 2 * length (todos_candidatos (dict_set a k h)) + 2 * i) = Entero 0 \<and>
         f ! (3 + 2 * length (todos_candidatos (dict_set a k h)) + 2 * i) = Decimal 0"
proof -
  from fila_previa[OF assms(1,3,4)] obtain k' d where e: "(k', d) \<in> set a"
    and f: "f = fila_de (todos_candidatos (dict_set a k h)) (todos_totales (dict_set a k h)) (k', d)"
    by blast
  from e assms(2) have "e \<notin> fst ` set (totales d)"
    by (force simp: set_todos_totales)
  then have "celdas_de (totales d) e = [Entero 0, Decimal 0]" by (rule celdas_de_ausente)
  then show ?thesis
    unfolding f fila_de_total[OF assms(5)] assms(6) by simp
qed

lemma nombre_nuevo_en_esquema:
  "e \<in> fst ` set (candidatos h) \<Longrightarrow> e \<in> set (todos_candidatos (dict_set a k h))"
  "e \<in> fst ` set (totales h) \<Longrightarrow> e \<in> set (todos_totales (dict_set a k h))"
proof -
  have "(k, h) \<in> set (dict_set a k h)"
    by (rule map_of_SomeD) (simp add: map_of_dict_set)
  then show "e \<in> fst ` set (candidatos h) \<Longrightarrow> e \<in> set (todos_candidatos (dict_set a k h))"
    "e \<in> fst ` set (totales h) \<Longrightarrow> e \<in> set (todos_totales (dict_set a k h))"
    by (force simp: set_todos_candidatos set_todos_totales)+
qed

lemma almacen_ejemplo_distinct:
  "distinct (map fst [((lit ''B'', lit ''R''), h1), ((lit ''A'', lit ''R''), h2)])"
  by (simp add: lit_simps)

text \<open>
  Claim C7. For a store with distinct keys, as a dictionary has them, the assembled matrix
  has as many rows as the store has keys, no two rows have the same (leaf, region)
  identity, the identities of the rows are the keys of the store, and the rows are in the
  order of (region, leaf). Each row has one cell per column; under the two columns of
  every candidate and of every total of the schema it holds the count and the share that
  the leaf of its key records for that entity, and 0 and 0.0 when the leaf does not
  record it. The key under which the walker stores an extracted leaf is the normalized
  name of the leaf with the normalized name of the region, and it is the identity of a
  row of the matrix assembled afterwards.
\<close>

theorem ensamblado_una_fila_por_clave:
  "(distinct (map fst almacen) \<and> df = crear_dataframe_final almacen \<and>
    cands = todos_candidatos almacen \<and> tots = todos_totales almacen \<longrightarrow>
    length (filas df) = length almacen \<and>
    distinct (map identidad (filas df)) \<and>
    set (map identidad (filas df)) = fst ` set almacen \<and>
    sorted (map (\<lambda>f. (snd (identidad f), fst (identidad f))) (filas df)) \<and>
    (\<forall>f\<in>set (filas df). \<exists>d.
       map_of almacen (identidad f) = Some d \<and>
       length f = length (columnas df) \<and>
       f ! 0 = Texto (fst (identidad f)) \<and> f ! 1 = Texto (snd (identidad f)) \<and>
       (\<forall>i<length cands.
          (f ! (2 + 2 * i), f ! (3 + 2 * i)) =
            (case map_of (candidatos d) (cands ! i) of
               Some r \<Rightarrow> (Entero (votos r), Decimal (porcentaje r))
             | None \<Rightarrow> (Entero 0, Decimal 0))) \<and>
       (\<forall>i<length tots.
          (f ! (2 + 2 * length cands + 2 * i), f ! (3 + 2 * length cands + 2 * i)) =
            (case map_of (totales d) (tots ! i) of
               Some r \<Rightarrow> (Entero (votos r), Decimal (porcentaje r))
             | None \<Rightarrow> (Entero 0, Decimal 0))))) \<and>
   (extraer_datos_comuna M (snd comuna) = Some (dc, dt) \<and> dc \<noteq> [] \<longrightarrow>
      (normalizar_nombre_comuna (fst comuna), region_normalizada) \<in>
        set (map identidad (filas (crear_dataframe_final
          (datos_completos (procesar_comuna_individual M comuna region_normalizada s))))))"
proof (intro conjI)
  show "extraer_datos_comuna M (snd comuna) = Some (dc, dt) \<and> dc \<noteq> [] \<longrightarrow>
      (normalizar_nombre_comuna (fst comuna), region_normalizada) \<in>
        set (map identidad (filas (crear_dataframe_final
          (datos_completos (procesar_comuna_individual M comuna region_normalizada s)))))"
  proof
    assume h: "extraer_datos_comuna M (snd comuna) = Some (dc, dt) \<and> dc \<noteq> []"
    then have "datos_completos (procesar_comuna_individual M comuna region_normalizada s) =
        dict_set (datos_completos s) (normalizar_nombre_comuna (fst comuna), region_normalizada)
          \<lparr>candidatos = dc, totales = dt\<rparr>"
      by (simp add: pci_exito)
    then show "(normalizar_nombre_comuna (fst comuna), region_normalizada) \<in>
        set (map identidad (filas (crear_dataframe_final
          (datos_completos (procesar_comuna_individual M comuna region_normalizada s)))))"
      by (simp only: identidades_filas claves_dict_set insertI1)
  qed
qed (rule filas_del_almacen)

theorem ensamblado_una_fila_por_clave_witness:
  "distinct (map fst [((lit ''B'', lit ''R''), \<lparr>candidatos = [(lit ''a'', \<lparr>votos = 1, porcentaje = 50\<rparr>)], totales = []\<rparr>),
                      ((lit ''A'', lit ''R''), \<lparr>candidatos = [(lit ''b'', \<lparr>votos = 3, porcentaje = 7\<rparr>)], totales = []\<rparr>)]) \<and>
   length (filas (crear_dataframe_final
     [((lit ''B'', lit ''R''), \<lparr>candidatos = [(lit ''a'', \<lparr>votos = 1, porcentaje = 50\<rparr>)], totales = []\<rparr>),
      ((lit ''A'', lit ''R''), \<lparr>candidatos = [(lit ''b'', \<lparr>votos = 3, porcentaje = 7\<rparr>)], totales = []\<rparr>)])) = 2"
proof -
  let ?a = "[((lit ''B'', lit ''R''), \<lparr>candidatos = [(lit ''a'', \<lparr>votos = 1, porcentaje = 50\<rparr>)], totales = []\<rparr>),
      ((lit ''A'', lit ''R''), \<lparr>candidatos = [(lit ''b'', \<lparr>votos = 3, porcentaje = 7\<rparr>)], totales = []\<rparr>)]"
  have d: "distinct (map fst ?a)" by (rule almacen_ejemplo_distinct)
  from ensamblado_una_fila_por_clave[of ?a "crear_dataframe_final ?a" "todos_candidatos ?a" "todos_totales ?a"] d
  have "length (filas (crear_dataframe_final ?a)) = length ?a" by blast
  with d show ?thesis by simp
qed

text \<open>
  Claim C6. Storing a leaf under a key that the store already has replaces the entry of
  that key in place: the store keeps its length and its keys, the keys stay distinct, the
  key now holds the new leaf, the matrix assembled afterwards has as many rows as before,
  and its only row with that identity is the row of the new leaf. The walker stores an
  extracted leaf by this very assignment.
\<close>

theorem reinsercion_sobrescribe:
  "(distinct (map fst almacen) \<and> k \<in> fst ` set almacen \<and> a' = dict_set almacen k h \<longrightarrow>
    length a' = length almacen \<and>
    map fst a' = map fst almacen \<and>
    distinct (map fst a') \<and>
    map_of a' k = Some h \<and>
    length (filas (crear_dataframe_final a')) = length (filas (crear_dataframe_final almacen)) \<and>
    filter (\<lambda>f. identidad f = k) (filas (crear_dataframe_final a')) =
      [fila_de (todos_candidatos a') (todos_totales a') (k, h)]) \<and>
   (extraer_datos_comuna M (snd comuna) = Some (dc, dt) \<and> dc \<noteq> [] \<longrightarrow>
      datos_completos (procesar_comuna_individual M comuna region_normalizada s) =
        dict_set (datos_completos s) (normalizar_nombre_comuna (fst comuna), region_normalizada)
          \<lparr>candidatos = dc, totales = dt\<rparr>)"
proof (intro conjI)
  show "extraer_datos_comuna M (snd comuna) = Some (dc, dt) \<and> dc \<noteq> [] \<longrightarrow>
      datos_completos (procesar_comuna_individual M comuna region_normalizada s) =
        dict_set (datos_completos s) (normalizar_nombre_comuna (fst comuna), region_normalizada)
          \<lparr>candidatos = dc, totales = dt\<rparr>"
    by (simp add: pci_exito)
qed (rule reinsercion_en_almacen)

theorem reinsercion_sobrescribe_witness:
  "length (dict_set
     [((lit ''B'', lit ''R''), \<lparr>candidatos = [(lit ''a'', \<lparr>votos = 1, porcentaje = 50\<rparr>)], totales = []\<rparr>),
      ((lit ''A'', lit ''R''), \<lparr>candidatos = [(lit ''b'', \<lparr>votos = 3, porcentaje = 7\<rparr>)], totales = []\<rparr>)]
     (lit ''A'', lit ''R'') \<lparr>candidatos = [(lit ''b'', \<lparr>votos = 4, porcentaje = 9\<rparr>)], totales = []\<rparr>) = 2"
proof -
  let ?a = "[((lit ''B'', lit ''R''), \<lparr>candidatos = [(lit ''a'', \<lparr>votos = 1, porcentaje = 50\<rparr>)], totales = []\<rparr>),
      ((lit ''A'', lit ''R''), \<lparr>candidatos = [(lit ''b'', \<lparr>votos = 3, porcentaje = 7\<rparr>)], totales = []\<rparr>)]"
  let ?h = "\<lparr>candidatos = [(lit ''b'', \<lparr>votos = 4, porcentaje = 9\<rparr>)], totales = []\<rparr>"
  have d: "distinct (map fst ?a)" by (rule almacen_ejemplo_distinct)
  have k: "(lit ''A'', lit ''R'') \<in> fst ` set ?a" by simp
  from reinsercion_sobrescribe[of ?a "(lit ''A'', lit ''R'')" "dict_set ?a (lit ''A'', lit ''R'') ?h" ?h] d k
  have "length (dict_set ?a (lit ''A'', lit ''R'') ?h) = length ?a" by blast
  then show ?thesis by simp
qed

text \<open>
  Claim C8. A leaf attempt without data is one in which the leaf cannot be selected, no
  results table is found (the wait times out, reading raises, or no visible table carries
  a marker word), or the table yields no candidate. Such an attempt adds one to
  \<open>comunas_con_error\<close> and leaves \<open>comunas_procesadas\<close> and \<open>datos_completos\<close> as they
  were, so the matrix assembled afterwards is the matrix assembled before: the leaf adds
  no row. The loop over the leaves of the region then goes on with the next leaf.
\<close>

theorem hoja_sin_datos:
  "(pag = SeleccionFallida \<or> pag = TimeoutTabla \<or> pag = ErrorLectura \<or>
    (\<exists>ts. pag = Tablas ts \<and> encontrar_tabla_resultados ts = None) \<or>
    (\<exists>dt. extraer_datos_comuna M pag = Some ([], dt))) \<and>
   s' = procesar_comuna_individual M (nombre, pag) r s \<longrightarrow>
   comunas_con_error s' = comunas_con_error s + 1 \<and>
   comunas_procesadas s' = comunas_procesadas s \<and>
   datos_completos s' = datos_completos s \<and>
   crear_dataframe_final (datos_completos s') = crear_dataframe_final (datos_completos s) \<and>
   (\<not> limite_alcanzado tope s \<longrightarrow>
      procesar_comunas tope M r ((nombre, pag) # resto) s = procesar_comunas tope M r resto s')"
proof (intro impI)
  assume h: "(pag = SeleccionFallida \<or> pag = TimeoutTabla \<or> pag = ErrorLectura \<or>
    (\<exists>ts. pag = Tablas ts \<and> encontrar_tabla_resultados ts = None) \<or>
    (\<exists>dt. extraer_datos_comuna M pag = Some ([], dt))) \<and>
   s' = procesar_comuna_individual M (nombre, pag) r s"
  then have "extraer_datos_comuna M (snd (nombre, pag)) = None \<or>
      (\<exists>dt. extraer_datos_comuna M (snd (nombre, pag)) = Some ([], dt))"
    using extraer_sin_tabla[of pag M] by auto
  then have "procesar_comuna_individual M (nombre, pag) r s =
     s\<lparr>comunas_con_error := comunas_con_error s + 1,
       bitacora := bitacora s @ [Procesando (normalizar_nombre_comuna (fst (nombre, pag))) r,
                                 SinDatos (normalizar_nombre_comuna (fst (nombre, pag)))]\<rparr>"
    by (rule pci_fallo)
  with h have s': "s' = s\<lparr>comunas_con_error := comunas_con_error s + 1,
       bitacora := bitacora s @ [Procesando (normalizar_nombre_comuna (fst (nombre, pag))) r,
                                 SinDatos (normalizar_nombre_comuna (fst (nombre, pag)))]\<rparr>"
    by simp
  have p: "procesar_comunas tope M r ((nombre, pag) # resto) s = procesar_comunas tope M r resto s'"
    if "\<not> limite_alcanzado tope s"
    using that h by simp
  show "comunas_con_error s' = comunas_con_error s + 1 \<and>
   comunas_procesadas s' = comunas_procesadas s \<and>
   datos_completos s' = datos_completos s \<and>
   crear_dataframe_final (datos_completos s') = crear_dataframe_final (datos_completos s) \<and>
   (\<not> limite_alcanzado tope s \<longrightarrow>
      procesar_comunas tope M r ((nombre, pag) # resto) s = procesar_comunas tope M r resto s')"
    using p by (simp add: s')
qed

theorem hoja_sin_datos_witness:
  "comunas_con_error (procesar_comuna_individual [] (lit ''ARICA'', TimeoutTabla) (lit ''R'') estado_inicial) = 1 \<and>
   comunas_procesadas (procesar_comuna_individual [] (lit ''ARICA'', TimeoutTabla) (lit ''R'') estado_inicial) = 0 \<and>
   datos_completos (procesar_comuna_individual [] (lit ''ARICA'', TimeoutTabla) (lit ''R'') estado_inicial) = []"
  using hoja_sin_datos[of TimeoutTabla "[]" "procesar_comuna_individual [] (lit ''ARICA'', TimeoutTabla) (lit ''R'') estado_inicial"
      "lit ''ARICA''" "lit ''R''" estado_inicial None "[]"]
  by (simp add: estado_inicial_def)

text \<open>
  Claim C3. The candidate names and the total names of the schema are each sorted,
  without repetition, and are the union of the names that the stored leaves record; the
  columns are \<open>comuna\<close>, \<open>region\<close>, then two columns per candidate, then two per total.
  Storing, under a new key, a leaf that records one name \<open>e\<close> that no stored leaf records
  (a candidate, or a total) and otherwise only names already in the schema puts \<open>e\<close> at
  its sorted place in the names of its kind and changes nothing else: one entity more,
  its two columns. In the matrix assembled after storing a leaf with such a name, every
  row of another key holds 0 and 0.0 under the columns of \<open>e\<close>.
\<close>

theorem esquema_union_ordenada:
  "sorted (todos_candidatos a) \<and> distinct (todos_candidatos a) \<and>
   set (todos_candidatos a) = (\<Union>e\<in>set a. fst ` set (candidatos (snd e))) \<and>
   sorted (todos_totales a) \<and> distinct (todos_totales a) \<and>
   set (todos_totales a) = (\<Union>e\<in>set a. fst ` set (totales (snd e))) \<and>
   columnas (crear_dataframe_final a) =
     [lit ''comuna'', lit ''region''] @ columnas_de (todos_candidatos a) @ columnas_de (todos_totales a) \<and>
   (k \<notin> fst ` set a \<and> e \<in> fst ` set (candidatos h) \<and> e \<notin> set (todos_candidatos a) \<and>
    fst ` set (candidatos h) \<subseteq> insert e (set (todos_candidatos a)) \<and>
    fst ` set (totales h) \<subseteq> set (todos_totales a) \<longrightarrow>
      todos_candidatos (dict_set a k h) = insort e (todos_candidatos a) \<and>
      todos_totales (dict_set a k h) = todos_totales a \<and>
      length (columnas (crear_dataframe_final (dict_set a k h))) =
        length (columnas (crear_dataframe_final a)) + 2) \<and>
   (k \<notin> fst ` set a \<and> e \<in> fst ` set (totales h) \<and> e \<notin> set (todos_totales a) \<and>
    fst ` set (totales h) \<subseteq> insert e (set (todos_totales a)) \<and>
    fst ` set (candidatos h) \<subseteq> set (todos_candidatos a) \<longrightarrow>
      todos_totales (dict_set a k h) = insort e (todos_totales a) \<and>
      todos_candidatos (dict_set a k h) = todos_candidatos a \<and>
      length (columnas (crear_dataframe_final (dict_set a k h))) =
        length (columnas (crear_dataframe_final a)) + 2) \<and>
   (distinct (map fst a) \<and> e \<in> fst ` set (candidatos h) \<and> e \<notin> set (todos_candidatos a) \<longrightarrow>
      e \<in> set (todos_candidatos (dict_set a k h)) \<and>
      (\<forall>f\<in>set (filas (crear_dataframe_final (dict_set a k h))). identidad f \<noteq> k \<longrightarrow>
         (\<forall>i<length (todos_candidatos (dict_set a k h)).
            todos_candidatos (dict_set a k h) ! i = e \<longrightarrow>
            f ! (2 + 2 * i) = Entero 0 \<and> f ! (3 + 2 * i) = Decimal 0))) \<and>
   (distinct (map fst a) \<and> e \<in> fst ` set (totales h) \<and> e \<notin> set (todos_totales a) \<longrightarrow>
      e \<in> set (todos_totales (dict_set a k h)) \<and>
      (\<forall>f\<in>set (filas (crear_dataframe_final (dict_set a k h))). identidad f \<noteq> k \<longrightarrow>
         (\<forall>i<length (todos_totales (dict_set a k h)).
            todos_totales (dict_set a k h) ! i = e \<longrightarrow>
            f ! (2 + 2 * length (todos_candidatos (dict_set a k h)) + 2 * i) = Entero 0 \<and>
            f ! (3 + 2 * length (todos_candidatos (dict_set a k h)) + 2 * i) = Decimal 0)))"
proof (intro conjI impI ballI allI)
  show "sorted (todos_candidatos a)" by (simp add: todos_candidatos_def sorted_sorted_union)
  show "distinct (todos_candidatos a)" by (simp add: todos_candidatos_def distinct_sorted_union)
  show "set (todos_candidatos a) = (\<Union>e\<in>set a. fst ` set (candidatos (snd e)))"
    by (rule set_todos_candidatos)
  show "sorted (todos_totales a)" by (simp add: todos_totales_def sorted_sorted_union)
  show "distinct (todos_totales a)" by (simp add: todos_totales_def distinct_sorted_union)
  show "set (todos_totales a) = (\<Union>e\<in>set a. fst ` set (totales (snd e)))"
    by (rule set_todos_totales)
  show "columnas (crear_dataframe_final a) =
     [lit ''comuna'', lit ''region''] @ columnas_de (todos_candidatos a) @ columnas_de (todos_totales a)"
    by (rule columnas_crear)
next
  assume h: "k \<notin> fst ` set a \<and> e \<in> fst ` set (candidatos h) \<and> e \<notin> set (todos_candidatos a) \<and>
    fst ` set (candidatos h) \<subseteq> insert e (set (todos_candidatos a)) \<and>
    fst ` set (totales h) \<subseteq> set (todos_totales a)"
  then have c: "todos_candidatos (dict_set a k h) = insort e (todos_candidatos a)"
    and t: "todos_totales (dict_set a k h) = todos_totales a"
    using esquema_candidato_nuevo[of k a e h] by simp_all
  show "todos_candidatos (dict_set a k h) = insort e (todos_candidatos a)" by (rule c)
  show "todos_totales (dict_set a k h) = todos_totales a" by (rule t)
  show "length (columnas (crear_dataframe_final (dict_set a k h))) =
        length (columnas (crear_dataframe_final a)) + 2"
    by (simp add: length_columnas_crear c t)
next
  assume h: "k \<notin> fst ` set a \<and> e \<in> fst ` set (totales h) \<and> e \<notin> set (todos_totales a) \<and>
    fst ` set (totales h) \<subseteq> insert e (set (todos_totales a)) \<and>
    fst ` set (candidatos h) \<subseteq> set (todos_candidatos a)"
  then have t: "todos_totales (dict_set a k h) = insort e (todos_totales a)"
    and c: "todos_candidatos (dict_set a k h) = todos_candidatos a"
    using esquema_total_nuevo[of k a e h] by simp_all
  show "todos_totales (dict_set a k h) = insort e (todos_totales a)" by (rule t)
  show "todos_candidatos (dict_set a k h) = todos_candidatos a" by (rule c)
  show "length (columnas (crear_dataframe_final (dict_set a k h))) =
        length (columnas (crear_dataframe_final a)) + 2"
    by (simp add: length_columnas_crear c t)
next
  assume "distinct (map fst a) \<and> e \<in> fst ` set (candidatos h) \<and> e \<notin> set (todos_candidatos a)"
  then show "e \<in> set (todos_candidatos (dict_set a k h))"
    by (simp add: nombre_nuevo_en_esquema)
next
  fix f i
  assume "distinct (map fst a) \<and> e \<in> fst ` set (candidatos h) \<and> e \<notin> set (todos_candidatos a)"
    and "f \<in> set (filas (crear_dataframe_final (dict_set a k h)))" and "identidad f \<noteq> k"
    and "i < length (todos_candidatos (dict_set a k h))"
    and "todos_candidatos (dict_set a k h) ! i = e"
  then have "f ! (2 + 2 * i) = Entero 0 \<and> f ! (3 + 2 * i) = Decimal 0"
    using cero_candidato_nuevo[of a e f k h i] by blast
  then show "f ! (2 + 2 * i) = Entero 0" and "f ! (3 + 2 * i) = Decimal 0" by simp_all
next
  assume "distinct (map fst a) \<and> e \<in> fst ` set (totales h) \<and> e \<notin> set (todos_totales a)"
  then show "e \<in> set (todos_totales (dict_set a k h))"
    by (simp add: nombre_nuevo_en_esquema)
next
  fix f i
  assume "distinct (map fst a) \<and> e \<in> fst ` set (totales h) \<and> e \<notin> set (todos_totales a)"
    and "f \<in> set (filas (crear_dataframe_final (dict_set a k h)))" and "identidad f \<noteq> k"
    and "i < length (todos_totales (dict_set a k h))"
    and "todos_totales (dict_set a k h) ! i = e"
  then have "f ! (2 + 2 * length (todos_candidatos (dict_set a k h)) + 2 * i) = Entero 0 \<and>
            f ! (3 + 2 * length (todos_candidatos (dict_set a k h)) + 2 * i) = Decimal 0"
    using cero_total_nuevo[of a e f k h i] by blast
  then show "f ! (2 + 2 * length (todos_candidatos (dict_set a k h)) + 2 * i) = Entero 0"
    and "f ! (3 + 2 * length (todos_candidatos (dict_set a k h)) + 2 * i) = Decimal 0" by simp_all
qed

theorem esquema_union_ordenada_witness:
  "todos_candidatos (dict_set [((lit ''B'', lit ''R''), \<lparr>candidatos = [(lit ''m'', \<lparr>votos = 1, porcentaje = 50\<rparr>)], totales = []\<rparr>)]
     (lit ''A'', lit ''R'') \<lparr>candidatos = [(lit ''m'', \<lparr>votos = 1, porcentaje = 50\<rparr>), (lit ''c'', \<lparr>votos = 1, porcentaje = 50\<rparr>)], totales = []\<rparr>) =
   [lit ''c'', lit ''m'']"
proof -
  let ?a = "[((lit ''B'', lit ''R''), \<lparr>candidatos = [(lit ''m'', \<lparr>votos = 1, porcentaje = 50\<rparr>)], totales = []\<rparr>)]"
  let ?h = "\<lparr>candidatos = [(lit ''m'', \<lparr>votos = 1, porcentaje = 50\<rparr>), (lit ''c'', \<lparr>votos = 1, porcentaje = 50\<rparr>)], totales = []\<rparr>"
  have tc: "todos_candidatos ?a = [lit ''m'']"
    by (simp add: todos_candidatos_def sorted_union_def)
  have tt: "todos_totales ?a = []"
    by (simp add: todos_totales_def sorted_union_def)
  have h: "(lit ''A'', lit ''R'') \<notin> fst ` set ?a \<and> lit ''c'' \<in> fst ` set (candidatos ?h) \<and>
    lit ''c'' \<notin> set (todos_candidatos ?a) \<and>
    fst ` set (candidatos ?h) \<subseteq> insert (lit ''c'') (set (todos_candidatos ?a)) \<and>
    fst ` set (totales ?h) \<subseteq> set (todos_totales ?a)"
    unfolding tc tt by (simp add: lit_simps)
  from esquema_union_ordenada[of ?a "(lit ''A'', lit ''R'')" "lit ''c''" ?h] h
  have "todos_candidatos (dict_set ?a (lit ''A'', lit ''R'') ?h) = insort (lit ''c'') (todos_candidatos ?a)"
    by blast
  then show ?thesis unfolding tc by (simp add: lit_simps)
qed

section \<open>The walk\<close>

lemmas ejecutar_defs = ejecutar_extraccion_def inicializar_navegador_def navegar_a_servel_def
  activar_filtro_division_electoral_def

lemma pci_campos:
  "\<exists>x. procesar_comuna_individual M c r s =
     s\<lparr>datos_completos := x,
       comunas_procesadas := comunas_procesadas s + 1,
       bitacora := bitacora s @ [Procesando (normalizar_nombre_comuna (fst c)) r,
                                 Extraida (normalizar_nombre_comuna (fst c))]\<rparr> \<or>
   procesar_comuna_individual M c r s =
     s\<lparr>comunas_con_error := comunas_con_error s + 1,
       bitacora := bitacora s @ [Procesando (normalizar_nombre_comuna (fst c)) r,
                                 SinDatos (normalizar_nombre_comuna (fst c))]\<rparr>"
  by (auto simp: procesar_comuna_individual_def Let_def split: option.splits)

lemma dentro_paso:
  assumes "dentro_del_limite n s" "int (comunas_procesadas s) < n"
    and b: "bitacora s' = bitacora s @ [Procesando x r, e]" "\<not> es_intento e"
    and c: "comunas_procesadas s' = comunas_procesadas s + (if es_exito e then 1 else 0)"
  shows "dentro_del_limite n s'"
proof -
  let ?b = "bitacora s"
  have 1: "int (comunas_procesadas s') \<le> n" using assms(2) c by simp
  have 2: "comunas_procesadas s' = length (filter es_exito (bitacora s'))"
    using assms(1) b c by (simp add: dentro_del_limite_def)
  have 3: "int (length (filter es_exito (take i (bitacora s')))) < n"
    if i: "i < length (bitacora s')" and e: "es_intento (bitacora s' ! i)" for i
  proof -
    consider "i < length ?b" | "i = length ?b" | "i = Suc (length ?b)"
      using i b(1) by force
    then show ?thesis
    proof cases
      case 1
      then have "bitacora s' ! i = ?b ! i" "take i (bitacora s') = take i ?b"
        by (simp_all add: b(1) nth_append)
      with 1 e assms(1) show ?thesis by (simp add: dentro_del_limite_def)
    next
      case 2
      then have "take i (bitacora s') = ?b" by (simp add: b(1))
      with assms(1,2) show ?thesis by (simp add: dentro_del_limite_def)
    next
      case 3
      then have "bitacora s' ! i = e" by (simp add: b(1) nth_append)
      with e b(2) show ?thesis by simp
    qed
  qed
  from 1 2 3 show ?thesis unfolding dentro_del_limite_def by blast
qed

lemma pci_dentro:
  assumes "dentro_del_limite n s" "int (comunas_procesadas s) < n"
  shows "dentro_del_limite n (procesar_comuna_individual M c r s)"
proof -
  from pci_campos[of M c r s] consider
    x where "procesar_comuna_individual M c r s =
     s\<lparr>datos_completos := x,
       comunas_procesadas := comunas_procesadas s + 1,
       bitacora := bitacora s @ [Procesando (normalizar_nombre_comuna (fst c)) r,
                                 Extraida (normalizar_nombre_comuna (fst c))]\<rparr>"
    | "procesar_comuna_individual M c r s =
     s\<lparr>comunas_con_error := comunas_con_error s + 1,
       bitacora := bitacora s @ [Procesando (normalizar_nombre_comuna (fst c)) r,
                                 SinDatos (normalizar_nombre_comuna (fst c))]\<rparr>"
    by blast
  then show ?thesis
  proof cases
    case 1
    show ?thesis
      by (rule dentro_paso[OF assms, where x = "normalizar_nombre_comuna (fst c)" and r = r
            and e = "Extraida (normalizar_nombre_comuna (fst c))"])
         (simp_all add: 1)
  next
    case 2
    show ?thesis
      by (rule dentro_paso[OF assms, where x = "normalizar_nombre_comuna (fst c)" and r = r
            and e = "SinDatos (normalizar_nombre_comuna (fst c))"])
         (simp_all add: 2)
  qed
qed

lemma limite_no_alcanzado:
  "0 < n \<Longrightarrow> dentro_del_limite n s \<Longrightarrow> \<not> limite_alcanzado (Some n) s \<Longrightarrow>
     int (comunas_procesadas s) < n"
  by (simp add: limite_alcanzado_def)

lemma comunas_dentro:
  "0 < n \<Longrightarrow> dentro_del_limite n s \<Longrightarrow>
     dentro_del_limite n (procesar_comunas (Some n) M r cs s)"
proof (induction cs arbitrary: s)
  case Nil
  then show ?case by simp
next
  case (Cons c cs)
  show ?case
  proof (cases "limite_alcanzado (Some n) s")
    case True
    with Cons.prems show ?thesis by simp
  next
    case False
    with Cons.prems have "int (comunas_procesadas s) < n" by (simp add: limite_no_alcanzado)
    with Cons.prems have "dentro_del_limite n (procesar_comuna_individual M c r s)"
      by (simp add: pci_dentro)
    with Cons.IH Cons.prems(1) False show ?thesis by simp
  qed
qed

lemma region_dentro:
  "0 < n \<Longrightarrow> dentro_del_limite n s \<Longrightarrow>
     dentro_del_limite n (procesar_region (Some n) M region s)"
  by (simp add: procesar_region_def Let_def comunas_dentro)

lemma regiones_dentro:
  "0 < n \<Longrightarrow> dentro_del_limite n s \<Longrightarrow>
     dentro_del_limite n (procesar_regiones (Some n) M regiones s)"
proof (induction regiones arbitrary: s)
  case Nil
  then show ?case by simp
next
  case (Cons g gs)
  then show ?case by (simp add: region_dentro)
qed

lemma inicial_dentro: "0 < n \<Longrightarrow> dentro_del_limite n estado_inicial"
  by (simp add: dentro_del_limite_def estado_inicial_def)

lemma regiones_dos_regiones:
  "obtener_regiones (sitio_dos_regiones pag) =
     [(lit ''DE TARAPACA'',
         Some (map (\<lambda>n. (lit n, pag)) [''Seleccionar'', ''IQUIQUE'', ''ALTO HOSPICIO'', ''PICA''])),
      (lit ''DE ATACAMA'',
         Some (map (\<lambda>n. (lit n, pag)) [''COPIAPO'', ''CALDERA'', ''VALLENAR'', ''HUASCO'']))]"
  by (simp add: obtener_regiones_def sitio_dos_regiones_def es_opcion_def lit_simps)

lemma comunas_tarapaca:
  "obtener_comunas_region (lit ''DE TARAPACA'',
         Some (map (\<lambda>n. (lit n, pag)) [''Seleccionar'', ''IQUIQUE'', ''ALTO HOSPICIO'', ''PICA''])) =
     map (\<lambda>n. (lit n, pag)) [''IQUIQUE'', ''ALTO HOSPICIO'', ''PICA'']"
  by (simp add: obtener_comunas_region_def es_opcion_def lit_simps)

lemma comunas_atacama:
  "obtener_comunas_region (lit ''DE ATACAMA'',
         Some (map (\<lambda>n. (lit n, pag)) [''COPIAPO'', ''CALDERA'', ''VALLENAR'', ''HUASCO''])) =
     map (\<lambda>n. (lit n, pag)) [''COPIAPO'', ''CALDERA'', ''VALLENAR'', ''HUASCO'']"
  by (simp add: obtener_comunas_region_def es_opcion_def lit_simps)

lemma extraer_pagina_ejemplo:
  "extraer_datos_comuna [] pagina_ejemplo =
     Some ([(lit ''perez'', \<lparr>votos = 1234, porcentaje = 456 / 10\<rparr>)], [])"
proof -
  have "encontrar_tabla_resultados
     [\<lparr>is_displayed = True, text_tabla = lit ''Candidato Votos'',
       filas_tabla = [[lit ''JUAN PEREZ'', lit ''1.234'', lit ''45,6'']]\<rparr>] =
     Some \<lparr>is_displayed = True, text_tabla = lit ''Candidato Votos'',
       filas_tabla = [[lit ''JUAN PEREZ'', lit ''1.234'', lit ''45,6'']]\<rparr>"
    by (simp add: encontrar_tabla_resultados_def marcadores_tabla_def cadena_defs)
  then show ?thesis
    by (simp add: pagina_ejemplo_def extraer_datos_comuna_def procesar_tabla_resultados_def
        fila_perez)
qed

lemma pci_pagina_ejemplo:
  "procesar_comuna_individual [] (nombre, pagina_ejemplo) r s =
     s\<lparr>datos_completos :=
          dict_set (datos_completos s) (normalizar_nombre_comuna nombre, r)
            \<lparr>candidatos = [(lit ''perez'', \<lparr>votos = 1234, porcentaje = 456 / 10\<rparr>)], totales = []\<rparr>,
       comunas_procesadas := comunas_procesadas s + 1,
       bitacora := bitacora s @ [Procesando (normalizar_nombre_comuna nombre) r,
                                 Extraida (normalizar_nombre_comuna nombre)]\<rparr>"
  using pci_exito[of "[]" "(nombre, pagina_ejemplo)" _ _ r s] extraer_pagina_ejemplo by simp

lemma pci_timeout:
  "procesar_comuna_individual M (nombre, TimeoutTabla) r s =
     s\<lparr>comunas_con_error := comunas_con_error s + 1,
       bitacora := bitacora s @ [Procesando (normalizar_nombre_comuna nombre) r,
                                 SinDatos (normalizar_nombre_comuna nombre)]\<rparr>"
  using pci_fallo[of M "(nombre, TimeoutTabla)" r s] extraer_sin_tabla[of TimeoutTabla M] by simp

lemma intentos_pci:
  "intentos (procesar_comuna_individual M c r s) = intentos s + 1"
  using pci_campos[of M c r s] by (auto simp: intentos_def)

lemma comunas_sin_tabla:
  "\<not> limite_alcanzado tope s \<Longrightarrow>
     intentos (procesar_comunas tope M r (map (\<lambda>n. (f n, TimeoutTabla)) ns) s) =
       intentos s + length ns \<and>
     comunas_con_error (procesar_comunas tope M r (map (\<lambda>n. (f n, TimeoutTabla)) ns) s) =
       comunas_con_error s + length ns \<and>
     comunas_procesadas (procesar_comunas tope M r (map (\<lambda>n. (f n, TimeoutTabla)) ns) s) =
       comunas_procesadas s"
proof (induction ns arbitrary: s)
  case Nil
  then show ?case by simp
next
  case (Cons n ns)
  let ?s = "procesar_comuna_individual M (f n, TimeoutTabla) r s"
  have p: "comunas_procesadas ?s = comunas_procesadas s" "comunas_con_error ?s = comunas_con_error s + 1"
    by (simp_all add: pci_timeout)
  then have "\<not> limite_alcanzado tope ?s"
    using Cons.prems by (simp add: limite_alcanzado_def split: option.splits)
  from Cons.IH[OF this] Cons.prems p show ?case
    by (simp add: intentos_pci)
qed

lemma comunas_con_tabla:
  "0 < n \<Longrightarrow> int (comunas_procesadas s) \<le> n \<Longrightarrow>
     intentos (procesar_comunas (Some n) [] r (map (\<lambda>x. (f x, pagina_ejemplo)) ns) s) =
       intentos s + min (length ns) (nat n - comunas_procesadas s) \<and>
     comunas_con_error (procesar_comunas (Some n) [] r (map (\<lambda>x. (f x, pagina_ejemplo)) ns) s) =
       comunas_con_error s \<and>
     comunas_procesadas (procesar_comunas (Some n) [] r (map (\<lambda>x. (f x, pagina_ejemplo)) ns) s) =
       comunas_procesadas s + min (length ns) (nat n - comunas_procesadas s)"
proof (induction ns arbitrary: s)
  case Nil
  then show ?case by simp
next
  case (Cons x ns)
  show ?case
  proof (cases "limite_alcanzado (Some n) s")
    case True
    then have "nat n - comunas_procesadas s = 0"
      by (simp add: limite_alcanzado_def nat_le_iff)
    with True show ?thesis by simp
  next
    case False
    let ?s = "procesar_comuna_individual [] (f x, pagina_ejemplo) r s"
    have p: "comunas_procesadas ?s = comunas_procesadas s + 1" "comunas_con_error ?s = comunas_con_error s"
      by (simp_all add: pci_pagina_ejemplo del: dict_set.simps)
    from False Cons.prems have lt: "int (comunas_procesadas s) < n"
      by (simp add: limite_alcanzado_def)
    then have "int (comunas_procesadas ?s) \<le> n" using p by simp
    from Cons.IH[OF Cons.prems(1) this] False p lt show ?thesis
      by (simp add: intentos_pci min_def) linarith
  qed
qed

lemma procesar_region_lista:
  "comunas = obtener_comunas_region region \<Longrightarrow> comunas \<noteq> [] \<Longrightarrow>
   \<not> (n \<noteq> 0 \<and> n < int (length comunas)) \<Longrightarrow>
     procesar_region (Some n) M region s =
       procesar_comunas (Some n) M (normalizar_nombre_region (fst region)) comunas s"
  by (auto simp: procesar_region_def Let_def)

lemma recorrido_todo_falla:
  "intentos (procesar_regiones (Some 5) [] (obtener_regiones (sitio_dos_regiones TimeoutTabla))
     estado_inicial) = 7"
proof -
  let ?R1 = "(lit ''DE TARAPACA'',
         Some (map (\<lambda>n. (lit n, TimeoutTabla)) [''Seleccionar'', ''IQUIQUE'', ''ALTO HOSPICIO'', ''PICA'']))"
  let ?R2 = "(lit ''DE ATACAMA'',
         Some (map (\<lambda>n. (lit n, TimeoutTabla)) [''COPIAPO'', ''CALDERA'', ''VALLENAR'', ''HUASCO'']))"
  let ?s1 = "procesar_region (Some 5) [] ?R1 estado_inicial"
  let ?s2 = "procesar_region (Some 5) [] ?R2 ?s1"
  have l0: "\<not> limite_alcanzado (Some 5) estado_inicial"
    by (simp add: limite_alcanzado_def estado_inicial_def)
  have i0: "intentos estado_inicial = 0"
    by (simp add: intentos_def estado_inicial_def)
  have r1: "?s1 = procesar_comunas (Some 5) [] (normalizar_nombre_region (fst ?R1))
      (map (\<lambda>n. (lit n, TimeoutTabla)) [''IQUIQUE'', ''ALTO HOSPICIO'', ''PICA'']) estado_inicial"
    by (rule procesar_region_lista) (simp_all only: comunas_tarapaca, simp_all)
  have n1: "intentos ?s1 = 3 \<and> comunas_procesadas ?s1 = 0"
    unfolding r1
    using comunas_sin_tabla[OF l0, of "[]" "normalizar_nombre_region (fst ?R1)" lit
        "[''IQUIQUE'', ''ALTO HOSPICIO'', ''PICA'']"] i0
    by (simp add: estado_inicial_def del: procesar_comunas.simps)
  then have l1: "\<not> limite_alcanzado (Some 5) ?s1"
    by (simp add: limite_alcanzado_def)
  have r2: "?s2 = procesar_comunas (Some 5) [] (normalizar_nombre_region (fst ?R2))
      (map (\<lambda>n. (lit n, TimeoutTabla)) [''COPIAPO'', ''CALDERA'', ''VALLENAR'', ''HUASCO'']) ?s1"
    by (rule procesar_region_lista) (simp_all only: comunas_atacama, simp_all)
  have n2: "intentos ?s2 = 7"
    unfolding r2
    using comunas_sin_tabla[OF l1, of "[]" "normalizar_nombre_region (fst ?R2)" lit
        "[''COPIAPO'', ''CALDERA'', ''VALLENAR'', ''HUASCO'']"] n1
    by (simp del: procesar_comunas.simps)
  have "procesar_regiones (Some 5) [] [?R1, ?R2] estado_inicial = ?s2"
    using l0 l1 by (simp only: procesar_regiones.simps if_False)
  with n2 show ?thesis by (simp only: regiones_dos_regiones)
qed

lemma recorrido_todo_extrae:
  "intentos (procesar_regiones (Some 5) [] (obtener_regiones (sitio_dos_regiones pagina_ejemplo))
     estado_inicial) = 5"
proof -
  let ?R1 = "(lit ''DE TARAPACA'',
         Some (map (\<lambda>n. (lit n, pagina_ejemplo)) [''Seleccionar'', ''IQUIQUE'', ''ALTO HOSPICIO'', ''PICA'']))"
  let ?R2 = "(lit ''DE ATACAMA'',
         Some (map (\<lambda>n. (lit n, pagina_ejemplo)) [''COPIAPO'', ''CALDERA'', ''VALLENAR'', ''HUASCO'']))"
  let ?s1 = "procesar_region (Some 5) [] ?R1 estado_inicial"
  let ?s2 = "procesar_region (Some 5) [] ?R2 ?s1"
  have l0: "\<not> limite_alcanzado (Some 5) estado_inicial"
    by (simp add: limite_alcanzado_def estado_inicial_def)
  have i0: "intentos estado_inicial = 0" "comunas_procesadas estado_inicial = 0"
    by (simp_all add: intentos_def estado_inicial_def)
  have r1: "?s1 = procesar_comunas (Some 5) [] (normalizar_nombre_region (fst ?R1))
      (map (\<lambda>n. (lit n, pagina_ejemplo)) [''IQUIQUE'', ''ALTO HOSPICIO'', ''PICA'']) estado_inicial"
    by (rule procesar_region_lista) (simp_all only: comunas_tarapaca, simp_all)
  have n1: "intentos ?s1 = 3 \<and> comunas_procesadas ?s1 = 3"
    unfolding r1
    using comunas_con_tabla[of 5 estado_inicial "normalizar_nombre_region (fst ?R1)" lit
        "[''IQUIQUE'', ''ALTO HOSPICIO'', ''PICA'']"] i0
    by (simp del: procesar_comunas.simps)
  then have l1: "\<not> limite_alcanzado (Some 5) ?s1"
    by (simp add: limite_alcanzado_def)
  have r2: "?s2 = procesar_comunas (Some 5) [] (normalizar_nombre_region (fst ?R2))
      (map (\<lambda>n. (lit n, pagina_ejemplo)) [''COPIAPO'', ''CALDERA'', ''VALLENAR'', ''HUASCO'']) ?s1"
    by (rule procesar_region_lista) (simp_all only: comunas_atacama, simp_all)
  have n2: "intentos ?s2 = 5"
    unfolding r2
    using comunas_con_tabla[of 5 ?s1 "normalizar_nombre_region (fst ?R2)" lit
        "[''COPIAPO'', ''CALDERA'', ''VALLENAR'', ''HUASCO'']"] n1
    by (simp del: procesar_comunas.simps)
  have "procesar_regiones (Some 5) [] [?R1, ?R2] estado_inicial = ?s2"
    using l0 l1 by (simp only: procesar_regiones.simps if_False)
  with n2 show ?thesis by (simp only: regiones_dos_regiones)
qed

lemma ejecutar_dos_regiones:
  "ejecutar_extraccion tope M (sitio_dos_regiones pag) s =
     Inr (crear_dataframe_final
            (datos_completos (procesar_regiones tope M (obtener_regiones (sitio_dos_regiones pag)) s)),
          procesar_regiones tope M (obtener_regiones (sitio_dos_regiones pag)) s)"
  by (simp add: ejecutar_defs regiones_dos_regiones Let_def)
     (simp add: sitio_dos_regiones_def)

text \<open>
  Claim C1, as amended. Under a positive cap \<open>n\<close>, a run that starts from the fresh state
  and ends normally has stored at most \<open>n\<close> leaves, and every leaf attempt of its log was
  started with fewer than \<open>n\<close> leaves stored: once \<open>n\<close> leaves are stored no attempt is
  started any more, in any region. The cap counts stored leaves; an attempt without data
  does not advance it. With cap 5 and the two regions of three and four leaves, five
  attempts are made when every leaf yields data.
\<close>

theorem limite_cuenta_exitos:
  "0 < n \<and> ejecutar_extraccion (Some n) M web estado_inicial = Inr (df, s') \<longrightarrow>
   int (comunas_procesadas s') \<le> n \<and>
   comunas_procesadas s' = length (filter es_exito (bitacora s')) \<and>
   (\<forall>i<length (bitacora s').
      es_intento (bitacora s' ! i) \<longrightarrow> int (length (filter es_exito (take i (bitacora s')))) < n)"
proof
  assume h: "0 < n \<and> ejecutar_extraccion (Some n) M web estado_inicial = Inr (df, s')"
  then have "s' = procesar_regiones (Some n) M (obtener_regiones web) estado_inicial"
    by (simp add: ejecutar_defs Let_def split: if_splits)
  with h have "dentro_del_limite n s'"
    by (simp add: regiones_dentro inicial_dentro)
  then show "int (comunas_procesadas s') \<le> n \<and>
   comunas_procesadas s' = length (filter es_exito (bitacora s')) \<and>
   (\<forall>i<length (bitacora s').
      es_intento (bitacora s' ! i) \<longrightarrow> int (length (filter es_exito (take i (bitacora s')))) < n)"
    by (simp add: dentro_del_limite_def)
qed

theorem limite_cuenta_exitos_witness:
  "intentos (snd (projr (ejecutar_extraccion (Some 5) [] (sitio_dos_regiones pagina_ejemplo)
      estado_inicial))) = 5 \<and>
   int (comunas_procesadas (snd (projr (ejecutar_extraccion (Some 5) [] (sitio_dos_regiones pagina_ejemplo)
      estado_inicial)))) \<le> 5"
proof -
  let ?E = "ejecutar_extraccion (Some 5) [] (sitio_dos_regiones pagina_ejemplo) estado_inicial"
  have e: "?E = Inr (fst (projr ?E), snd (projr ?E))"
    by (simp add: ejecutar_dos_regiones)
  have "(0::int) < 5" by simp
  with limite_cuenta_exitos[of 5 "[]" "sitio_dos_regiones pagina_ejemplo" "fst (projr ?E)" "snd (projr ?E)"] e
  have "int (comunas_procesadas (snd (projr ?E))) \<le> 5" by blast
  moreover have "intentos (snd (projr ?E)) = 5"
    by (simp only: ejecutar_dos_regiones sum.sel snd_conv recorrido_todo_extrae)
  ultimately show ?thesis by simp
qed

text \<open>
  With cap 5 and the same two regions, all seven leaves are attempted when no leaf has a
  results table: a sixth and a seventh attempt are started.
\<close>

theorem limite_intentos_fallidos_counterexample:
  "intentos (snd (projr (ejecutar_extraccion (Some 5) [] (sitio_dos_regiones TimeoutTabla)
      estado_inicial))) = 7"
  by (simp only: ejecutar_dos_regiones sum.sel snd_conv recorrido_todo_falla)

text \<open>
  Claim C2, as amended. A run ends with an exception in four cases, tried in this order:
  no browser can be started, the page of the site cannot be loaded, the filter of the
  electoral division cannot be activated, and no region is listed. In every other case it
  ends normally with the matrix of what the walk has stored, whatever happens while the
  leaves of a region are listed, a leaf is selected or its table is read.
\<close>

theorem terminacion_de_la_corrida:
  "(ejecutar_extraccion tope M web s = Inl SinNavegador \<longleftrightarrow> \<not> navegador_disponible web) \<and>
   (ejecutar_extraccion tope M web s = Inl FalloNavegacion \<longleftrightarrow>
      navegador_disponible web \<and> \<not> pagina_cargada web) \<and>
   (ejecutar_extraccion tope M web s = Inl FalloFiltro \<longleftrightarrow>
      navegador_disponible web \<and> pagina_cargada web \<and> \<not> filtro_activado web) \<and>
   (ejecutar_extraccion tope M web s = Inl SinRegiones \<longleftrightarrow>
      navegador_disponible web \<and> pagina_cargada web \<and> filtro_activado web \<and>
      obtener_regiones web = []) \<and>
   (navegador_disponible web \<and> pagina_cargada web \<and> filtro_activado web \<and>
    obtener_regiones web \<noteq> [] \<longrightarrow>
      ejecutar_extraccion tope M web s =
        Inr (crear_dataframe_final
               (datos_completos (procesar_regiones tope M (obtener_regiones web) s)),
             procesar_regiones tope M (obtener_regiones web) s))"
  by (simp add: ejecutar_defs Let_def)

theorem terminacion_de_la_corrida_witness:
  "ejecutar_extraccion None [] (sitio_dos_regiones SeleccionFallida) estado_inicial =
     Inr (crear_dataframe_final (datos_completos
            (procesar_regiones None [] (obtener_regiones (sitio_dos_regiones SeleccionFallida))
               estado_inicial)),
          procesar_regiones None [] (obtener_regiones (sitio_dos_regiones SeleccionFallida))
            estado_inicial)"
proof -
  have "navegador_disponible (sitio_dos_regiones SeleccionFallida) \<and>
    pagina_cargada (sitio_dos_regiones SeleccionFallida) \<and>
    filtro_activado (sitio_dos_regiones SeleccionFallida)"
    by (simp add: sitio_dos_regiones_def)
  moreover have "obtener_regiones (sitio_dos_regiones SeleccionFallida) \<noteq> []"
    by (simp add: regiones_dos_regiones)
  ultimately show ?thesis
    using terminacion_de_la_corrida[of None "[]" "sitio_dos_regiones SeleccionFallida" estado_inicial] by blast
qed

text \<open>
  With a browser started and two regions to list, a run still ends with an exception
  when the filter of the electoral division cannot be activated.
\<close>

theorem fallo_filtro_aborta_counterexample:
  "ejecutar_extraccion None [] ((sitio_dos_regiones pagina_ejemplo)\<lparr>filtro_activado := False\<rparr>)
     estado_inicial = Inl FalloFiltro \<and>
   navegador_disponible ((sitio_dos_regiones pagina_ejemplo)\<lparr>filtro_activado := False\<rparr>) \<and>
   length (obtener_regiones ((sitio_dos_regiones pagina_ejemplo)\<lparr>filtro_activado := False\<rparr>)) = 2"
proof -
  have "obtener_regiones ((sitio_dos_regiones pagina_ejemplo)\<lparr>filtro_activado := False\<rparr>) =
     obtener_regiones (sitio_dos_regiones pagina_ejemplo)"
    by (simp add: obtener_regiones_def)
  then show ?thesis
    by (simp add: regiones_dos_regiones) (simp add: ejecutar_defs sitio_dos_regiones_def)
qed

end
